theory Spec2Isabelle
  imports
    Main
    "HOL-Library.Finite_Map"
    "HOL-Library.FSet"
    "HOL-Library.Char_ord"
    "HOL-Library.List_Lexorder"
begin

section \<open>The Redis key space (redis.go, lines 41-84)\<close>

text \<open>
  The key constants of redis.go, kept under their names.  Every key the program touches is
  one of these strings, or one of them followed by a message-id, a group name, a hash, ...
\<close>

definition APP_PREFIX :: string where
  "APP_PREFIX = ''NNTP::''"

definition ARTICLE_PREFIX :: string where
  "ARTICLE_PREFIX = APP_PREFIX @ ''Article::''"

definition ARTICLE_POST_PREFIX :: string where
  "ARTICLE_POST_PREFIX = APP_PREFIX @ ''ArticlePost::''"

definition ARTICLE_KEY_PREFIX :: string where
  "ARTICLE_KEY_PREFIX = APP_PREFIX @ ''ArticleKey::''"

definition HASH_MESSAGEID_PREFIX :: string where
  "HASH_MESSAGEID_PREFIX = APP_PREFIX @ ''HashMessageID::''"

definition ATTACHMENT_PREFIX :: string where
  "ATTACHMENT_PREFIX = APP_PREFIX @ ''Attachment::''"

definition IP_BAN_PREFIX :: string where
  "IP_BAN_PREFIX = APP_PREFIX @ ''IPBan::''"

definition IP_RANGE_BAN_PREFIX :: string where
  "IP_RANGE_BAN_PREFIX = APP_PREFIX @ ''IPRangeBan::''"

definition GROUP_POSTTIME_WKR :: string where
  "GROUP_POSTTIME_WKR = APP_PREFIX @ ''GroupPostTimeWKR''"

definition GROUP_ARTICLE_POSTTIME_WKR_PREFIX :: string where
  "GROUP_ARTICLE_POSTTIME_WKR_PREFIX = APP_PREFIX @ ''GroupArticlePostTimeWKR::''"

definition GROUP_THREAD_POSTTIME_WKR_PREFIX :: string where
  "GROUP_THREAD_POSTTIME_WKR_PREFIX = APP_PREFIX @ ''GroupThreadPostTimeWKR::''"

definition GROUP_THREAD_BUMPTIME_WKR_PREFIX :: string where
  "GROUP_THREAD_BUMPTIME_WKR_PREFIX = APP_PREFIX @ ''GroupThreadBumpTimeWKR::''"

definition THREAD_POST_WKR :: string where
  "THREAD_POST_WKR = APP_PREFIX @ ''ThreadPostsWKR::''"

definition ARTICLE_WKR :: string where
  "ARTICLE_WKR = APP_PREFIX @ ''ArticleWKR''"

definition THREAD_BUMPTIME_WKR :: string where
  "THREAD_BUMPTIME_WKR = APP_PREFIX @ ''ThreadBumpTimeWKR''"

definition HEADER_KR_PREFIX :: string where
  "HEADER_KR_PREFIX = APP_PREFIX @ ''HeaderKR::''"

definition MESSAGEID_HEADER_KR_PREFIX :: string where
  "MESSAGEID_HEADER_KR_PREFIX = APP_PREFIX @ ''MessageIDHeaderKR::''"

definition ARTICLE_ATTACHMENT_KR_PREFIX :: string where
  "ARTICLE_ATTACHMENT_KR_PREFIX = APP_PREFIX @ ''ArticleAttachmentsKR::''"

definition ATTACHMENT_ARTICLE_KR_PREFIX :: string where
  "ATTACHMENT_ARTICLE_KR_PREFIX = APP_PREFIX @ ''AttachmentArticlesKR::''"

definition IP_RANGE_BAN_KR :: string where
  "IP_RANGE_BAN_KR = APP_PREFIX @ ''IPRangeBanKR''"

section \<open>The Redis commands the program issues\<close>

text \<open>
  The database is one flat key space.  A key holds a string, a hash (field to value), a set
  or a sorted set (member to score).  The scores the program writes are Unix times converted
  with \<^verbatim>\<open>float64(...)\<close>; that conversion is exact for every time of magnitude below
  \<open>2^53\<close>, so a score is modelled as the integer it was converted from.

  A command sent to a key of another type fails with WRONGTYPE and changes nothing.  A set,
  sorted set or hash that loses its last member disappears as a key.
\<close>

datatype rvalue =
    RString string
  | RHash "(string, string) fmap"
  | RSet "string fset"
  | RZSet "(string, int) fmap"

type_synonym redis = "string \<Rightarrow> rvalue option"

definition Exists :: "redis \<Rightarrow> string \<Rightarrow> bool" where
  "Exists db k = (db k \<noteq> None)"

definition Del :: "string list \<Rightarrow> redis \<Rightarrow> redis" where
  "Del ks db = (\<lambda>k. if k \<in> set ks then None else db k)"

definition Set_cmd :: "string \<Rightarrow> string \<Rightarrow> redis \<Rightarrow> redis" where
  "Set_cmd k v db = db(k \<mapsto> RString v)"

definition Get_cmd :: "redis \<Rightarrow> string \<Rightarrow> string option" where
  "Get_cmd db k = (case db k of Some (RString s) \<Rightarrow> Some s | _ \<Rightarrow> None)"

definition HMSet :: "string \<Rightarrow> (string \<times> string) list \<Rightarrow> redis \<Rightarrow> redis" where
  "HMSet k fvs db =
     (case db k of
        None \<Rightarrow> db(k \<mapsto> RHash (fold (\<lambda>(f, v). fmupd f v) fvs fmempty))
      | Some (RHash h) \<Rightarrow> db(k \<mapsto> RHash (fold (\<lambda>(f, v). fmupd f v) fvs h))
      | Some _ \<Rightarrow> db)"

definition HSetNX :: "string \<Rightarrow> string \<Rightarrow> string \<Rightarrow> redis \<Rightarrow> redis" where
  "HSetNX k f v db =
     (case db k of
        None \<Rightarrow> db(k \<mapsto> RHash (fmupd f v fmempty))
      | Some (RHash h) \<Rightarrow> (if f |\<in>| fmdom h then db else db(k \<mapsto> RHash (fmupd f v h)))
      | Some _ \<Rightarrow> db)"

text \<open>\<open>HGet\<close>: \<open>None\<close> is the client's non-nil error (missing key, missing field, wrong type).\<close>

definition HGet :: "redis \<Rightarrow> string \<Rightarrow> string \<Rightarrow> string option" where
  "HGet db k f = (case db k of Some (RHash h) \<Rightarrow> fmlookup h f | _ \<Rightarrow> None)"

text \<open>
  \<open>HGetAll\<close> followed by \<open>processHashResult\<close> (redis.go, lines 1067-1074): the flat reply
  \<open>[f1, v1, f2, v2, ...]\<close> is folded back into a map, so the two together return the hash
  itself; a missing key gives the empty map, and \<open>None\<close> is the WRONGTYPE error.
\<close>

definition HGetAll :: "redis \<Rightarrow> string \<Rightarrow> (string, string) fmap option" where
  "HGetAll db k =
     (case db k of None \<Rightarrow> Some fmempty | Some (RHash h) \<Rightarrow> Some h | Some _ \<Rightarrow> None)"

definition SAdd :: "string \<Rightarrow> string \<Rightarrow> redis \<Rightarrow> redis" where
  "SAdd k m db =
     (case db k of
        None \<Rightarrow> db(k \<mapsto> RSet {|m|})
      | Some (RSet s) \<Rightarrow> db(k \<mapsto> RSet (finsert m s))
      | Some _ \<Rightarrow> db)"

definition SRem :: "string \<Rightarrow> string \<Rightarrow> redis \<Rightarrow> redis" where
  "SRem k m db =
     (case db k of
        Some (RSet s) \<Rightarrow> (if s |-| {|m|} = {||} then db(k := None) else db(k \<mapsto> RSet (s |-| {|m|})))
      | _ \<Rightarrow> db)"

text \<open>
  \<open>SMembers\<close>: Redis returns the members in no particular order; the model lists them in
  byte order.  \<open>None\<close> is the WRONGTYPE error.
\<close>

definition SMembers :: "redis \<Rightarrow> string \<Rightarrow> string list option" where
  "SMembers db k =
     (case db k of
        None \<Rightarrow> Some []
      | Some (RSet s) \<Rightarrow> Some (sorted_list_of_fset s)
      | Some _ \<Rightarrow> None)"

definition ZAdd :: "string \<Rightarrow> int \<Rightarrow> string \<Rightarrow> redis \<Rightarrow> redis" where
  "ZAdd k score m db =
     (case db k of
        None \<Rightarrow> db(k \<mapsto> RZSet (fmupd m score fmempty))
      | Some (RZSet z) \<Rightarrow> db(k \<mapsto> RZSet (fmupd m score z))
      | Some _ \<Rightarrow> db)"

text \<open>\<open>ZAddNX\<close> (ZADD NX) only adds new members and never changes a score.\<close>

definition ZAddNX :: "string \<Rightarrow> int \<Rightarrow> string \<Rightarrow> redis \<Rightarrow> redis" where
  "ZAddNX k score m db =
     (case db k of
        None \<Rightarrow> db(k \<mapsto> RZSet (fmupd m score fmempty))
      | Some (RZSet z) \<Rightarrow> (if m |\<in>| fmdom z then db else db(k \<mapsto> RZSet (fmupd m score z)))
      | Some _ \<Rightarrow> db)"

text \<open>\<open>ZAddXX\<close> (ZADD XX) only updates members that exist and never adds one.\<close>

definition ZAddXX :: "string \<Rightarrow> int \<Rightarrow> string \<Rightarrow> redis \<Rightarrow> redis" where
  "ZAddXX k score m db =
     (case db k of
        Some (RZSet z) \<Rightarrow> (if m |\<in>| fmdom z then db(k \<mapsto> RZSet (fmupd m score z)) else db)
      | _ \<Rightarrow> db)"

definition ZRem :: "string \<Rightarrow> string \<Rightarrow> redis \<Rightarrow> redis" where
  "ZRem k m db =
     (case db k of
        Some (RZSet z) \<Rightarrow> (if fmdrop m z = fmempty then db(k := None) else db(k \<mapsto> RZSet (fmdrop m z)))
      | _ \<Rightarrow> db)"

text \<open>\<open>ZCard\<close>: the number of members, 0 for a missing key; \<open>None\<close> is the WRONGTYPE error.\<close>

definition ZCard :: "redis \<Rightarrow> string \<Rightarrow> int option" where
  "ZCard db k =
     (case db k of
        None \<Rightarrow> Some 0
      | Some (RZSet z) \<Rightarrow> Some (int (fcard (fmdom z)))
      | Some _ \<Rightarrow> None)"

text \<open>
  \<open>ZRank\<close>: the number of members that sort before \<open>m\<close> (by score, then by bytes);
  \<open>None\<close> is the client's error for a member or key that is not there.
\<close>

definition ZRank :: "redis \<Rightarrow> string \<Rightarrow> string \<Rightarrow> nat option" where
  "ZRank db k m =
     (case db k of
        Some (RZSet z) \<Rightarrow>
          (case fmlookup z m of
             None \<Rightarrow> None
           | Some s \<Rightarrow>
               Some (fcard (ffilter (\<lambda>m'. case fmlookup z m' of
                                              None \<Rightarrow> False
                                            | Some s' \<Rightarrow> s' < s \<or> (s' = s \<and> m' < m)) (fmdom z))))
      | _ \<Rightarrow> None)"

text \<open>The score of a member of a sorted set (what ZSCORE would answer).\<close>

definition ZScore :: "redis \<Rightarrow> string \<Rightarrow> string \<Rightarrow> int option" where
  "ZScore db k m = (case db k of Some (RZSet z) \<Rightarrow> fmlookup z m | _ \<Rightarrow> None)"

section \<open>Article numbers of a group (redis.go, lines 889-899)\<close>

text \<open>
  \<open>GetLastAndFirstForGroup\<close> returns \<open>(last, first, err)\<close>; \<open>err\<close> is \<open>True\<close> when ZCARD
  failed, in which case the client hands back 0 as the count.
\<close>

definition GetLastAndFirstForGroup :: "redis \<Rightarrow> string \<Rightarrow> int \<times> int \<times> bool" where
  "GetLastAndFirstForGroup db grp =
     (let (last, err) =
            (case ZCard db (GROUP_ARTICLE_POSTTIME_WKR_PREFIX @ grp) of
               None \<Rightarrow> (0, True)
             | Some n \<Rightarrow> (n, False))
      in if last = 0 then (0, 1, err) else (last + 1, 1, err))"


section \<open>Registering an article (redis.go, lines 602-642 and 680-759)\<close>

text \<open>
  \<open>NNTPMessage\<close> is an interface in redis.go; the record holds what its methods return.
  \<open>Hash\<close> of an attachment is a byte slice, which \<open>RegisterArticle\<close> turns into a hex
  string with \<^verbatim>\<open>hex.EncodeToString\<close>.
\<close>

record NNTPAttachment =
  Hash :: "nat list"
  Filename :: string
  Filepath :: string

record NNTPMessage =
  MessageID :: string
  Newsgroup :: string
  Reference :: string
  Name :: string
  Subject :: string
  Path :: string
  Posted :: int
  Message :: string
  Addr :: string
  OP :: bool
  Sage :: bool
  Headers :: "(string \<times> string list) list"
  Attachments :: "NNTPAttachment list"

definition hexdigit :: "nat \<Rightarrow> char" where
  "hexdigit n = ''0123456789abcdef'' ! (n mod 16)"

text \<open>\<^verbatim>\<open>hex.EncodeToString\<close>: two lower-case hex digits for each byte (a byte is a
  number below 256).\<close>

definition EncodeToString :: "nat list \<Rightarrow> string" where
  "EncodeToString bs = concat (map (\<lambda>b. [hexdigit (b div 16), hexdigit b]) bs)"

definition digit :: "nat \<Rightarrow> char" where
  "digit n = ''0123456789'' ! (n mod 10)"

fun digits :: "nat \<Rightarrow> string" where
  "digits n = (if n < 10 then [digit n] else digits (n div 10) @ [digit n])"

text \<open>\<^verbatim>\<open>strconv.Itoa\<close>: the decimal form of an integer.\<close>

definition Itoa :: "int \<Rightarrow> string" where
  "Itoa i = (if i < 0 then CHR ''-'' # digits (nat (- i)) else digits (nat i))"

definition HasNewsgroup :: "redis \<Rightarrow> string \<Rightarrow> bool" where
  "HasNewsgroup db grp = (ZRank db GROUP_POSTTIME_WKR grp \<noteq> None)"

definition HasArticle :: "redis \<Rightarrow> string \<Rightarrow> bool" where
  "HasArticle db message_id = Exists db (ARTICLE_PREFIX @ message_id)"

definition HasArticleLocal :: "redis \<Rightarrow> string \<Rightarrow> bool" where
  "HasArticleLocal db message_id = Exists db (ARTICLE_POST_PREFIX @ message_id)"

text \<open>\<open>now\<close> is what \<^verbatim>\<open>timeNow()\<close> returns when \<open>RegisterNewsgroup\<close> reads the clock.\<close>

definition RegisterNewsgroup :: "int \<Rightarrow> string \<Rightarrow> redis \<Rightarrow> redis" where
  "RegisterNewsgroup now grp db = ZAddNX GROUP_POSTTIME_WKR now grp db"

text \<open>The name under which a header value is indexed (line 735).\<close>

definition header_name :: "string \<Rightarrow> string \<Rightarrow> string" where
  "header_name k v = ''Name::'' @ k @ ''::Value::'' @ v"

text \<open>The loop over the headers (lines 733-739): the inner loop over the values of one
  header, then the outer loop.  Go walks the map in no fixed order; the commands are set
  insertions, so the order does not show in the result.\<close>

definition register_header :: "string \<Rightarrow> string \<Rightarrow> string list \<Rightarrow> redis \<Rightarrow> redis" where
  "register_header msgid k val db =
     fold (\<lambda>v d. SAdd (MESSAGEID_HEADER_KR_PREFIX @ msgid) (header_name k v)
                    (SAdd (HEADER_KR_PREFIX @ header_name k v) msgid d))
          val db"

definition register_headers :: "string \<Rightarrow> (string \<times> string list) list \<Rightarrow> redis \<Rightarrow> redis" where
  "register_headers msgid hdrs db = fold (\<lambda>(k, val). register_header msgid k val) hdrs db"

text \<open>The loop over the attachments (lines 742-753): its body, then the loop.\<close>

definition register_attachment :: "string \<Rightarrow> NNTPAttachment \<Rightarrow> redis \<Rightarrow> redis" where
  "register_attachment msgid att db =
     (let hash = EncodeToString (Hash att);
          d1 = SAdd (ATTACHMENT_ARTICLE_KR_PREFIX @ hash) msgid db;
          d2 = SAdd (ARTICLE_ATTACHMENT_KR_PREFIX @ msgid) hash d1;
          d3 = HSetNX (ATTACHMENT_PREFIX @ hash) ''message_id'' msgid d2;
          d4 = HSetNX (ATTACHMENT_PREFIX @ hash) ''sha_hash'' hash d3;
          d5 = HSetNX (ATTACHMENT_PREFIX @ hash) ''filename'' (Filename att) d4
      in HSetNX (ATTACHMENT_PREFIX @ hash) ''filepath'' (Filepath att) d5)"

definition register_attachments :: "string \<Rightarrow> NNTPAttachment list \<Rightarrow> redis \<Rightarrow> redis" where
  "register_attachments msgid atts db = fold (register_attachment msgid) atts db"

text \<open>The thread state (lines 711-730).\<close>

definition register_thread :: "NNTPMessage \<Rightarrow> redis \<Rightarrow> redis" where
  "register_thread message db =
     (let msgid = MessageID message; grp = Newsgroup message
      in if OP message then
           (let d1 = ZAddNX (GROUP_THREAD_POSTTIME_WKR_PREFIX @ grp) (Posted message) msgid db;
                d2 = ZAddNX (GROUP_THREAD_BUMPTIME_WKR_PREFIX @ grp) (Posted message) msgid d1
            in if grp \<noteq> ''ctl'' then ZAddNX THREAD_BUMPTIME_WKR (Posted message) msgid d2 else d2)
         else
           (let ref = Reference message;
                d1 = (if \<not> Sage message then
                        ZAddXX THREAD_BUMPTIME_WKR (Posted message) ref
                          (ZAddXX (GROUP_THREAD_BUMPTIME_WKR_PREFIX @ grp) (Posted message) ref db)
                      else db);
                d2 = ZAddXX (GROUP_THREAD_POSTTIME_WKR_PREFIX @ grp) (Posted message) ref d1
            in ZAddNX (THREAD_POST_WKR @ ref) (Posted message) msgid d2))"

text \<open>
  \<open>RegisterArticle\<close>.  \<open>HashMessageID\<close> is a helper of the program that is not part of the
  sources at hand; it is a parameter.  \<open>t0\<close> and \<open>now\<close> are the two readings of the clock:
  \<open>t0\<close> inside \<open>RegisterNewsgroup\<close>, \<open>now\<close> at line 694.  The commands queued on the
  pipeline run in the order they were queued.
\<close>

definition RegisterArticle ::
  "(string \<Rightarrow> string) \<Rightarrow> int \<Rightarrow> int \<Rightarrow> NNTPMessage \<Rightarrow> redis \<Rightarrow> redis" where
  "RegisterArticle HashMessageID t0 now message db =
     (let msgid = MessageID message;
          grp = Newsgroup message;
          db0 = (if \<not> HasNewsgroup db grp then RegisterNewsgroup t0 grp db else db)
      in if HasArticle db0 msgid then db0
         else
           (let p1 = HMSet (ARTICLE_PREFIX @ msgid)
                       [(''msgid'', msgid), (''message_id_hash'', HashMessageID msgid),
                        (''message_newsgroup'', grp), (''time_obtained'', Itoa now),
                        (''message_ref_id'', Reference message)] db0;
                p2 = Set_cmd (HASH_MESSAGEID_PREFIX @ HashMessageID msgid) msgid p1;
                p3 = ZAddXX GROUP_POSTTIME_WKR now grp p2;
                p4 = ZAddNX (GROUP_ARTICLE_POSTTIME_WKR_PREFIX @ grp) now msgid p3;
                p5 = HMSet (ARTICLE_POST_PREFIX @ msgid)
                       [(''newsgroup'', grp), (''message_id'', msgid),
                        (''ref_id'', Reference message), (''name'', Name message),
                        (''subject'', Subject message), (''path'', Path message),
                        (''time_posted'', Itoa (Posted message)),
                        (''message'', Message message), (''addr'', Addr message)] p4;
                p6 = (if grp \<noteq> ''ctl'' then ZAddNX ARTICLE_WKR now msgid p5 else p5);
                p7 = register_thread message p6;
                p8 = register_headers msgid (Headers message) p7
            in register_attachments msgid (Attachments message) p8))"

text \<open>
  The orderings of the index, read as maps from member to score.  A key that is missing, or
  that holds something other than a sorted set, reads as the empty ordering.
\<close>

definition ordering_at :: "redis \<Rightarrow> string \<Rightarrow> (string, int) fmap" where
  "ordering_at db k = (case db k of Some (RZSet z) \<Rightarrow> z | _ \<Rightarrow> fmempty)"

definition group_article_posttime :: "redis \<Rightarrow> string \<Rightarrow> (string, int) fmap" where
  "group_article_posttime db grp = ordering_at db (GROUP_ARTICLE_POSTTIME_WKR_PREFIX @ grp)"

definition group_thread_posttime :: "redis \<Rightarrow> string \<Rightarrow> (string, int) fmap" where
  "group_thread_posttime db grp = ordering_at db (GROUP_THREAD_POSTTIME_WKR_PREFIX @ grp)"

definition group_thread_bumptime :: "redis \<Rightarrow> string \<Rightarrow> (string, int) fmap" where
  "group_thread_bumptime db grp = ordering_at db (GROUP_THREAD_BUMPTIME_WKR_PREFIX @ grp)"

definition thread_bumptime_all :: "redis \<Rightarrow> (string, int) fmap" where
  "thread_bumptime_all db = ordering_at db THREAD_BUMPTIME_WKR"

definition thread_posts :: "redis \<Rightarrow> string \<Rightarrow> (string, int) fmap" where
  "thread_posts db root = ordering_at db (THREAD_POST_WKR @ root)"

definition group_posttime :: "redis \<Rightarrow> (string, int) fmap" where
  "group_posttime db = ordering_at db GROUP_POSTTIME_WKR"

text \<open>A key that holds a value of another type than a sorted set.\<close>

definition not_a_zset :: "redis \<Rightarrow> string \<Rightarrow> bool" where
  "not_a_zset db k = (case db k of None \<Rightarrow> False | Some (RZSet z) \<Rightarrow> False | Some _ \<Rightarrow> True)"

text \<open>
  The articles of the scenarios: the plain article \<open><abc@x>\<close> posted on
  Mon, 02 Jan 2006 15:04:05 -0700 (Unix time 1136239445), a sage reply \<open><def@x>\<close> to it,
  and a reply \<open><ghi@x>\<close> that is not sage.
\<close>

definition article_abc :: NNTPMessage where
  "article_abc =
     \<lparr>MessageID = ''<abc@x>'', Newsgroup = ''overchan.test'', Reference = [],
      Name = ''anon'', Subject = ''hello'', Path = ''x'', Posted = 1136239445,
      Message = ''hi'', Addr = [], OP = True, Sage = False,
      Headers = [(''Subject'', [''hello''])], Attachments = []\<rparr>"

definition reply_def :: NNTPMessage where
  "reply_def =
     \<lparr>MessageID = ''<def@x>'', Newsgroup = ''overchan.test'', Reference = ''<abc@x>'',
      Name = ''anon'', Subject = ''Sage re: hello'', Path = ''x'', Posted = 1136239500,
      Message = ''re'', Addr = [], OP = False, Sage = True,
      Headers = [], Attachments = []\<rparr>"

definition reply_ghi :: NNTPMessage where
  "reply_ghi =
     \<lparr>MessageID = ''<ghi@x>'', Newsgroup = ''overchan.test'', Reference = ''<abc@x>'',
      Name = ''anon'', Subject = ''re: hello'', Path = ''x'', Posted = 1136239600,
      Message = ''re'', Addr = [], OP = False, Sage = False,
      Headers = [], Attachments = []\<rparr>"

text \<open>A store in which the thread \<open><abc@x>\<close> is listed with time 1136239445 in the three
  thread orderings, and nothing else.\<close>

definition thread_abc_db :: redis where
  "thread_abc_db =
     ZAddNX THREAD_BUMPTIME_WKR 1136239445 ''<abc@x>''
       (ZAddNX (GROUP_THREAD_BUMPTIME_WKR_PREFIX @ ''overchan.test'') 1136239445 ''<abc@x>''
          (ZAddNX (GROUP_THREAD_POSTTIME_WKR_PREFIX @ ''overchan.test'') 1136239445 ''<abc@x>''
             Map.empty))"

text \<open>A group for which \<open>RegisterArticle\<close> has nothing left to do in \<open>group_posttime\<close>:
  it is a member, or the key holds a value that is not a sorted set (so that ZADD fails).\<close>

definition newsgroup_settled :: "redis \<Rightarrow> string \<Rightarrow> bool" where
  "newsgroup_settled db grp \<longleftrightarrow>
     (case db GROUP_POSTTIME_WKR of None \<Rightarrow> False | Some (RZSet z) \<Rightarrow> grp |\<in>| fmdom z | Some _ \<Rightarrow> True)"

section \<open>Deleting an article (redis.go, lines 440-473 and 492-525)\<close>

text \<open>
  \<open>GetPostModel\<close> reads the post hash of a message-id.  Of the model it builds, the record
  keeps what \<open>DeleteArticle\<close> asks for through \<open>OP()\<close>, \<open>Reference()\<close> and \<open>Board()\<close>; the other
  fields (name, subject, path, time, address, text, attachments, public key) are reads that
  leave the database as it is.  A field that is missing from the hash reads as the empty
  string.  \<open>None\<close> is the \<^verbatim>\<open>nil\<close> returned when HGETALL fails.
\<close>

record post =
  board :: string
  message_id :: string
  parent :: string
  op :: bool

definition GetPostModel :: "redis \<Rightarrow> string \<Rightarrow> post option" where
  "GetPostModel db messageID =
     (case HGetAll db (ARTICLE_POST_PREFIX @ messageID) of
        None \<Rightarrow> None
      | Some mapRes \<Rightarrow>
          (let field = (\<lambda>f. case fmlookup mapRes f of None \<Rightarrow> '''' | Some v \<Rightarrow> v);
               ref = field ''ref_id''
           in Some \<lparr>board = field ''newsgroup'',
                    message_id = field ''message_id'',
                    parent = (if length ref = 0 then field ''message_id'' else ref),
                    op = (length ref = 0)\<rparr>))"

text \<open>The loop over the header names of the article (lines 507-510).\<close>

definition remove_headers :: "string \<Rightarrow> string list \<Rightarrow> redis \<Rightarrow> redis" where
  "remove_headers msgid headers db = fold (\<lambda>h. SRem (HEADER_KR_PREFIX @ h) msgid) headers db"

text \<open>The body of the loop over the attachments of the article (lines 514-521), then the
  loop.  Line 518 is the comment \<^verbatim>\<open>//TODO delete files from disk\<close>: no command follows it.\<close>

definition remove_attachment :: "string \<Rightarrow> string \<Rightarrow> redis \<Rightarrow> redis" where
  "remove_attachment msgid a db =
     (let d = SRem (ATTACHMENT_ARTICLE_KR_PREFIX @ a) msgid db
      in if \<not> Exists d (ATTACHMENT_ARTICLE_KR_PREFIX @ a)
         then Del [ATTACHMENT_PREFIX @ a] d
         else d)"

definition remove_attachments :: "string \<Rightarrow> string list \<Rightarrow> redis \<Rightarrow> redis" where
  "remove_attachments msgid atts db = fold (remove_attachment msgid) atts db"

text \<open>
  \<open>DeleteArticle\<close>, in two parts.  Where the code drops the error of a read
  (\<^verbatim>\<open>x, _ := ...\<close>), the value is the zero value: the empty string, or no members.

  Lines 495-511: the thread membership, the hash-to-message-id entry, the records of the
  article, its places in the article orderings and its header index entries.
\<close>

definition delete_records :: "string \<Rightarrow> post \<Rightarrow> redis \<Rightarrow> redis" where
  "delete_records msgid p db =
     (let d1 = (if \<not> op p then ZRem (THREAD_POST_WKR @ parent p) msgid db else db);
          hash = (case HGet d1 (ARTICLE_PREFIX @ msgid) ''message_id_hash'' of
                    None \<Rightarrow> '''' | Some h \<Rightarrow> h);
          d2 = (if hash \<noteq> '''' then Del [HASH_MESSAGEID_PREFIX @ hash] d1 else d1);
          d3 = Del [ARTICLE_PREFIX @ msgid, ARTICLE_POST_PREFIX @ msgid,
                    ARTICLE_KEY_PREFIX @ msgid] d2;
          d4 = ZRem (GROUP_ARTICLE_POSTTIME_WKR_PREFIX @ board p) msgid d3;
          d5 = ZRem ARTICLE_WKR msgid d4;
          headers = (case SMembers d5 (MESSAGEID_HEADER_KR_PREFIX @ msgid) of
                       None \<Rightarrow> [] | Some hs \<Rightarrow> hs);
          d6 = remove_headers msgid headers d5
      in Del [MESSAGEID_HEADER_KR_PREFIX @ msgid] d6)"

text \<open>Lines 492-494 and 513-525: the guard on the post model, and the attachments.\<close>

definition DeleteArticle :: "string \<Rightarrow> redis \<Rightarrow> redis" where
  "DeleteArticle msgid db =
     (case GetPostModel db msgid of
        None \<Rightarrow> db
      | Some p \<Rightarrow>
          (let d7 = delete_records msgid p db;
               atts = (case SMembers d7 (ARTICLE_ATTACHMENT_KR_PREFIX @ msgid) of
                         None \<Rightarrow> [] | Some as \<Rightarrow> as);
               d8 = remove_attachments msgid atts d7
           in Del [ARTICLE_ATTACHMENT_KR_PREFIX @ msgid] d8))"

text \<open>What the index says about an attachment hash \<open>a\<close>: that \<open>msgid\<close> is the only article
  in its reverse link set, and that it has neither a reverse link set nor a record.\<close>

definition only_referrer :: "redis \<Rightarrow> string \<Rightarrow> string \<Rightarrow> bool" where
  "only_referrer db a msgid \<longleftrightarrow> db (ATTACHMENT_ARTICLE_KR_PREFIX @ a) = Some (RSet {|msgid|})"

definition attachment_gone :: "redis \<Rightarrow> string \<Rightarrow> bool" where
  "attachment_gone db a \<longleftrightarrow>
     db (ATTACHMENT_ARTICLE_KR_PREFIX @ a) = None \<and> db (ATTACHMENT_PREFIX @ a) = None"

text \<open>
  The index together with the attachment directory of the Blob Store.  \<open>DeleteArticle\<close> is a
  method of \<open>RedisDB\<close>, whose only field is the Redis client: it is handed no
  \<open>ArticleStore\<close> and calls no \<^verbatim>\<open>os.Remove\<close>, so the files pass through it untouched.
  (\<open>NukeNewsgroup\<close>, lines 138-179, is handed the store and removes the files itself.)
\<close>

record daemon =
  database :: redis
  attachment_files :: "string set"

definition DeleteArticle_daemon :: "string \<Rightarrow> daemon \<Rightarrow> daemon" where
  "DeleteArticle_daemon msgid st = st\<lparr>database := DeleteArticle msgid (database st)\<rparr>"

text \<open>
  The article \<open><pic@x>\<close> with one attachment: the blob with (shortened) hash \<open>ab cd\<close>,
  stored by the Blob Store as the file \<open>abcd.png\<close>.
\<close>

definition article_pic :: NNTPMessage where
  "article_pic =
     \<lparr>MessageID = ''<pic@x>'', Newsgroup = ''overchan.test'', Reference = [],
      Name = ''anon'', Subject = ''see pic'', Path = ''x'', Posted = 1136239445,
      Message = ''see pic'', Addr = [], OP = True, Sage = False,
      Headers = [],
      Attachments = [\<lparr>Hash = [171, 205], Filename = ''pic.png'', Filepath = ''abcd.png''\<rparr>]\<rparr>"

definition pic_daemon :: daemon where
  "pic_daemon =
     \<lparr>database = RegisterArticle id 1136239445 1136239445 article_pic Map.empty,
      attachment_files = {''abcd.png''}\<rparr>"

section \<open>The article store (store.go, lines 1-547)\<close>

subsection \<open>File names of articles (lines 311-318)\<close>

text \<open>
  Modelled from the spec: \<open>ValidMessageID\<close> lives in a file of the program that is not among
  the sources at hand.  The specification (section 6) says: a message-id is valid iff it
  begins with \<open><\<close>, ends with \<open>>\<close>, contains \<open>@\<close>, and has total length within NNTP
  limits.  The limit is not given a number there; it is the parameter \<open>limit\<close>.
\<close>

definition ValidMessageID :: "nat \<Rightarrow> string \<Rightarrow> bool" where
  "ValidMessageID limit id' \<longleftrightarrow>
     id' \<noteq> [] \<and> hd id' = CHR ''<'' \<and> last id' = CHR ''>'' \<and> CHR ''@'' \<in> set id'
     \<and> length id' \<le> limit"

text \<open>The fields of \<open>articleStore\<close> that are plain data (the database handle and the gzip
  writer are left out).\<close>

record articleStore =
  directory :: string
  temp :: string
  attachments :: string
  thumbs :: string
  convert_path :: string
  ffmpeg_path :: string
  sox_path :: string
  compression :: bool

text \<open>The calls a store operation makes to the file system, in order.\<close>

datatype fs_call = Stat string | Open string | Create string | Remove string

text \<open>
  \<open>GetFilename\<close> returns the path together with the file-system calls it made.
  \<^verbatim>\<open>filepath.Join\<close> is a library function that works on the strings alone; it is the
  parameter \<open>Join\<close>.  The log line of the invalid branch is not modelled.
\<close>

definition GetFilename ::
  "nat \<Rightarrow> (string \<Rightarrow> string \<Rightarrow> string) \<Rightarrow> articleStore \<Rightarrow> string \<Rightarrow> string \<times> fs_call list" where
  "GetFilename limit Join self messageID =
     (if \<not> ValidMessageID limit messageID then ('''', [])
      else (Join (directory self) messageID, []))"

text \<open>A store to run \<open>GetFilename\<close> on; joining paths is done by plain concatenation
  there.\<close>

definition articles_store :: articleStore where
  "articles_store =
     \<lparr>directory = ''articles/'', temp = ''incoming/'', attachments = ''attachments/'',
      thumbs = ''thumbs/'', convert_path = ''convert'', ffmpeg_path = ''ffmpegthumbnailer'',
      sox_path = ''sox'', compression = False\<rparr>"

subsection \<open>Signatures carried in the headers (message.go as shipped in store.go, lines 599-658)\<close>

text \<open>
  The three fields of the struct \<open>NNTPMessage\<close> that \<open>Verify\<close> reads (\<open>MessageID\<close> is only
  printed).  A Go string is a sequence of bytes, and so is a \<open>string\<close> here; a byte slice is
  modelled by a \<open>string\<close> as well.
\<close>

record signed_fields =
  Key :: string
  Signature :: string
  Signed :: string

definition LF :: char where
  "LF = CHR 0x0A"

definition CR :: char where
  "CR = CHR 0x0D"

text \<open>\<^verbatim>\<open>strings.Replace(s, "\n", "\r\n", -1)\<close>: every line feed becomes carriage return, line
  feed; the byte before it is not looked at.\<close>

definition Replace_LF :: "string \<Rightarrow> string" where
  "Replace_LF s = concat (map (\<lambda>c. if c = LF then [CR, LF] else [c]) s)"

text \<open>
  The bytes \<open>Verify\<close> hashes (lines 627-630): the replacement, then \<^verbatim>\<open>buff[:len(buff)-2]\<close>.
  When the buffer is shorter than two bytes the slice bound is negative and Go panics:
  that is \<open>None\<close>.
\<close>

definition signed_bytes :: "string \<Rightarrow> string option" where
  "signed_bytes signed =
     (let buff = Replace_LF signed
      in if length buff < 2 then None else Some (take (length buff - 2) buff))"

text \<open>\<^verbatim>\<open>hex.DecodeString\<close>: two hex digits, of either case, for each byte; \<open>None\<close> is its
  error (odd length, or a byte that is no hex digit).\<close>

definition hexval :: "char \<Rightarrow> nat option" where
  "hexval c =
     (let n = of_char c :: nat
      in if 48 \<le> n \<and> n \<le> 57 then Some (n - 48)
         else if 97 \<le> n \<and> n \<le> 102 then Some (n - 87)
         else if 65 \<le> n \<and> n \<le> 70 then Some (n - 55)
         else None)"

fun DecodeString :: "string \<Rightarrow> string option" where
  "DecodeString [] = Some []"
| "DecodeString [c] = None"
| "DecodeString (a # b # rest) =
     (case (hexval a, hexval b, DecodeString rest) of
        (Some x, Some y, Some bs) \<Rightarrow> Some (char_of (16 * x + y) # bs)
      | _ \<Rightarrow> None)"

text \<open>The calls to the cryptographic primitives, in order.\<close>

datatype crypto_call = Sha512 string | SignOpen string string | VerifyDetached string string string

text \<open>
  The primitives themselves are outside the sources at hand (\<^verbatim>\<open>crypto/sha512\<close> is a
  library, \<^verbatim>\<open>nacl.CryptoVerify\<close> and \<^verbatim>\<open>nacl.CryptoVerifyFucky\<close> are in a file of the
  \<open>nacl\<close> package that is not there): they are parameters.
\<close>

record crypto =
  Sum512 :: "string \<Rightarrow> string"
  CryptoVerify :: "string \<Rightarrow> string \<Rightarrow> bool"
  CryptoVerifyFucky :: "string \<Rightarrow> string \<Rightarrow> string \<Rightarrow> bool"

text \<open>
  \<open>Verify\<close> returns what the Go function returns together with the calls to the primitives
  it made; \<open>None\<close> is the panic of the slice expression.
\<close>

definition Verify :: "crypto \<Rightarrow> signed_fields \<Rightarrow> (bool \<times> crypto_call list) option" where
  "Verify C self =
     (if length (Signature self) > 0 \<and> length (Key self) > 0 \<and> length (Signed self) > 0 then
        (case signed_bytes (Signed self) of
           None \<Rightarrow> None
         | Some buff \<Rightarrow>
             (let msg_hash = Sum512 C buff
              in case DecodeString (Signature self) of
                   None \<Rightarrow> Some (False, [Sha512 buff])
                 | Some sig_bytes \<Rightarrow>
                     (case DecodeString (Key self) of
                        None \<Rightarrow> Some (False, [Sha512 buff])
                      | Some pk_bytes \<Rightarrow>
                          Some (CryptoVerify C (sig_bytes @ msg_hash) pk_bytes,
                                [Sha512 buff, SignOpen (sig_bytes @ msg_hash) pk_bytes]))))
      else Some (True, []))"

text \<open>
  The canonical form in the words of the specification (section 4.4): every \<^emph>\<open>lone\<close> line
  feed, that is one not preceded by a carriage return, is replaced by carriage return, line
  feed, and the trailing two bytes are trimmed.  \<open>prev_cr\<close> tells whether the byte before
  was a carriage return.
\<close>

fun replace_lone_LF :: "bool \<Rightarrow> string \<Rightarrow> string" where
  "replace_lone_LF prev_cr [] = []"
| "replace_lone_LF prev_cr (c # cs) =
     (if c = LF \<and> \<not> prev_cr then CR # LF # replace_lone_LF False cs
      else c # replace_lone_LF (c = CR) cs)"

definition spec_signed_bytes :: "string \<Rightarrow> string" where
  "spec_signed_bytes signed =
     take (length (replace_lone_LF False signed) - 2) (replace_lone_LF False signed)"

text \<open>Stand-ins for the primitives, to run the model on concrete inputs: the hash is the
  identity and every signature is refused.  Nothing is proved about Ed25519 or SHA-512.\<close>

definition refuse_all :: crypto where
  "refuse_all =
     \<lparr>Sum512 = id, CryptoVerify = (\<lambda>smsg pk. False), CryptoVerifyFucky = (\<lambda>h s pk. False)\<rparr>"

subsection \<open>Reading a message body (lines 399-547)\<close>

text \<open>
  A Go \<open>error\<close>: one made on the spot with \<^verbatim>\<open>errors.New\<close>, or one handed up by a
  library or a helper.
\<close>

datatype error = New string | Lib string

text \<open>
  \<^verbatim>\<open>textproto.MIMEHeader\<close> is a map from header name to the list of its values.
\<close>

type_synonym MIMEHeader = "string \<Rightarrow> string list option"

text \<open>\<^verbatim>\<open>MIMEHeader.Get\<close>: the first value of the header, or the empty string.\<close>

definition MIMEHeader_Get :: "MIMEHeader \<Rightarrow> string \<Rightarrow> string" where
  "MIMEHeader_Get h k = (case h k of Some (v # vs) \<Rightarrow> v | _ \<Rightarrow> '''')"

text \<open>
  An \<^verbatim>\<open>io.Reader\<close>, as the list of what its successive \<open>Read\<close> calls return: the bytes,
  and \<open>None\<close> for a nil error, \<open>Some EOF\<close> for \<^verbatim>\<open>io.EOF\<close> or \<open>Some (Failed e)\<close> for another
  error.  Past the end of the list every \<open>Read\<close> returns no bytes and \<^verbatim>\<open>io.EOF\<close>.  The
  reader stands for \<open>body\<close> after line 435, that is with the tee to \<open>wr\<close> in place (a failed
  write to \<open>wr\<close> shows as a failed \<open>Read\<close>); what the tee writes is not modelled.
\<close>

datatype read_error = EOF | Failed error

type_synonym reader = "(string \<times> read_error option) list"

text \<open>A part of a multipart body: its header and its content.\<close>

record part =
  part_Header :: MIMEHeader
  part_content :: string

text \<open>
  \<open>nntpArticle\<close>: the headers, the text (a plain-text attachment) and the attachments.
\<close>

record nntpArticle =
  art_headers :: MIMEHeader
  art_message :: "NNTPAttachment option"
  art_attachments :: "NNTPAttachment list"

text \<open>
  What \<open>read_message_body\<close> calls and the sources at hand do not hold: library functions
  (\<^verbatim>\<open>mime.ParseMediaType\<close>, the \<^verbatim>\<open>multipart\<close> reader) and helpers of the program
  (the accessors of \<open>nntpArticle\<close>, \<open>unhex\<close>, \<open>readMIMEHeader\<close>,
  \<open>readAttachmentFromMimePartAndStore\<close>, \<open>createPlaintextAttachment\<close>).  They are
  parameters.
  \<^item> \<open>ParseMediaType\<close> returns the error, or the media type and the parameters.
  \<^item> \<open>NextParts body boundary\<close> lists the parts that successive calls of \<open>NextPart\<close> return
    with a nil error, and then \<open>None\<close> if the call after them returns \<^verbatim>\<open>io.EOF\<close>, or
    \<open>Some e\<close> if it returns another error.
  \<^item> \<open>readMIMEHeader\<close> returns the error, or the header and the bytes left in the reader.
  \<^item> \<open>readAttachmentFromMimePartAndStore p store\<close> has \<open>store = False\<close> for a nil store.
  \<^item> \<open>as_NNTPMessage\<close> gives what the methods of the interface \<open>NNTPMessage\<close> return for
    an article.
\<close>

record env =
  ParseMediaType :: "string \<Rightarrow> error + (string \<times> (string \<Rightarrow> string option))"
  NextParts :: "reader \<Rightarrow> string \<Rightarrow> part list \<times> error option"
  ContentType :: "MIMEHeader \<Rightarrow> string"
  Pubkey :: "MIMEHeader \<Rightarrow> string"
  Get :: "MIMEHeader \<Rightarrow> string \<Rightarrow> string \<Rightarrow> string"
  unhex :: "string \<Rightarrow> string"
  readMIMEHeader :: "string \<Rightarrow> error + (MIMEHeader \<times> string)"
  readAttachmentFromMimePartAndStore :: "part \<Rightarrow> bool \<Rightarrow> NNTPAttachment option"
  createPlaintextAttachment :: "string \<Rightarrow> NNTPAttachment"
  as_NNTPMessage :: "nntpArticle \<Rightarrow> NNTPMessage"
  HashMessageID :: "string \<Rightarrow> string"
  primitives :: crypto

text \<open>The loop over the parts (lines 439-475), on the parts that \<open>NextPart\<close> hands out.\<close>

fun read_parts :: "env \<Rightarrow> bool \<Rightarrow> part list \<Rightarrow> nntpArticle \<Rightarrow> nntpArticle" where
  "read_parts E store [] nntp = nntp"
| "read_parts E store (p # ps) nntp =
     (case ParseMediaType E (MIMEHeader_Get (part_Header p) ''Content-Type'') of
        Inl err \<Rightarrow> read_parts E store ps nntp
      | Inr (media_type, params) \<Rightarrow>
          (if media_type = ''text/plain'' then
             (case readAttachmentFromMimePartAndStore E p False of
                None \<Rightarrow> read_parts E store ps nntp
              | Some att \<Rightarrow> read_parts E store ps (nntp\<lparr>art_message := Some att\<rparr>))
           else
             (case readAttachmentFromMimePartAndStore E p store of
                None \<Rightarrow> read_parts E store ps nntp
              | Some att \<Rightarrow>
                  read_parts E store ps (nntp\<lparr>art_attachments := art_attachments nntp @ [att]\<rparr>))))"

text \<open>
  The loop that reads the signed body (lines 491-505): the bytes of every \<open>Read\<close> that
  returns a nil error are hashed and buffered; \<^verbatim>\<open>io.EOF\<close> ends the loop (bytes that
  come with it are not written); another error is returned.
\<close>

fun read_signed_body :: "reader \<Rightarrow> string \<Rightarrow> error + string" where
  "read_signed_body [] buff = Inr buff"
| "read_signed_body ((b, None) # rs) buff = read_signed_body rs (buff @ b)"
| "read_signed_body ((b, Some EOF) # rs) buff = Inr buff"
| "read_signed_body ((b, Some (Failed e)) # rs) buff = Inl e"

text \<open>
  The loop of the single-part branch (lines 533-543): it stops at the first error, keeps the
  bytes it has, and hands the error on unless it is \<^verbatim>\<open>io.EOF\<close>.
\<close>

fun read_plain_body :: "reader \<Rightarrow> string \<Rightarrow> string \<times> error option" where
  "read_plain_body [] str = (str, None)"
| "read_plain_body ((b, None) # rs) str = read_plain_body rs (str @ b)"
| "read_plain_body ((b, Some EOF) # rs) str = (str, None)"
| "read_plain_body ((b, Some (Failed e)) # rs) str = (str, Some e)"

text \<open>
  \<open>read_message_body\<close> returns the pair of Go, the article (or \<^verbatim>\<open>nil\<close>) and the error (or
  \<^verbatim>\<open>nil\<close>), and with it the calls to the cryptographic primitives it made.  The function
  calls itself on the inner message of a signed envelope; the first argument bounds the
  depth of that nesting, and \<open>None\<close> is the answer when the bound is used up.  \<open>store\<close> is
  \<open>False\<close> for a nil store.  The inner message is read from a buffered reader over the
  bytes left after its header.
\<close>

fun read_message_body ::
  "nat \<Rightarrow> env \<Rightarrow> reader \<Rightarrow> MIMEHeader \<Rightarrow> bool
   \<Rightarrow> ((nntpArticle option \<times> error option) \<times> crypto_call list) option" where
  "read_message_body 0 E body hdr store = None"
| "read_message_body (Suc depth) E body hdr store =
     (case ParseMediaType E (ContentType E hdr) of
        Inl err \<Rightarrow> Some ((None, Some err), [])
      | Inr (media_type, params) \<Rightarrow>
          (case params ''boundary'' of
             Some boundary \<Rightarrow>
               (case NextParts E body boundary of
                  (ps, None) \<Rightarrow>
                    Some ((Some (read_parts E store ps
                                   \<lparr>art_headers = hdr, art_message = None, art_attachments = []\<rparr>),
                           None), [])
                | (ps, Some err) \<Rightarrow> Some ((None, Some err), []))
           | None \<Rightarrow>
               (if media_type = ''message/rfc822'' then
                  (let sig = Get E hdr ''X-Signature-Ed25519-Sha512'' '''';
                       pk = Pubkey E hdr
                   in if pk = '''' \<or> sig = '''' then Some ((None, Some (New ''invalid headers'')), [])
                      else
                        (case read_signed_body body [] of
                           Inl err \<Rightarrow> Some ((None, Some err), [])
                         | Inr buff \<Rightarrow>
                             (let hash = Sum512 (primitives E) buff;
                                  calls = [Sha512 buff, VerifyDetached hash (unhex E sig) (unhex E pk)]
                              in if CryptoVerifyFucky (primitives E) hash (unhex E sig) (unhex E pk)
                                 then
                                   (case readMIMEHeader E buff of
                                      Inl err \<Rightarrow> Some ((None, Some err), calls)
                                    | Inr (hdr', rest) \<Rightarrow>
                                        (case read_message_body depth E [(rest, None)] hdr' store of
                                           None \<Rightarrow> None
                                         | Some (res, calls') \<Rightarrow> Some (res, calls @ calls')))
                                 else Some ((None, Some (New ''invalid signature'')), calls))))
                else
                  (case read_plain_body body [] of
                     (str, err) \<Rightarrow>
                       Some ((Some \<lparr>art_headers = hdr,
                                     art_message = Some (createPlaintextAttachment E str),
                                     art_attachments = []\<rparr>, err), [])))))"

text \<open>
  \<open>RegisterPost\<close> (lines 241-244) hands the article to the database and returns a nil
  error.  \<open>t0\<close> and \<open>now\<close> are the readings of the clock inside \<open>RegisterArticle\<close>.
\<close>

definition RegisterPost :: "env \<Rightarrow> int \<Rightarrow> int \<Rightarrow> nntpArticle \<Rightarrow> redis \<Rightarrow> redis" where
  "RegisterPost E t0 now nntp db = RegisterArticle (HashMessageID E) t0 now (as_NNTPMessage E nntp) db"

text \<open>
  \<open>ProcessMessageBody\<close> (lines 399-406) returns the error (or \<^verbatim>\<open>nil\<close>) and the database
  it leaves.  The article is registered only when \<open>read_message_body\<close> returns a nil
  error.  \<open>None\<close>: the nesting bound of \<open>read_message_body\<close> was used up.
\<close>

definition ProcessMessageBody ::
  "nat \<Rightarrow> env \<Rightarrow> int \<Rightarrow> int \<Rightarrow> MIMEHeader \<Rightarrow> reader \<Rightarrow> redis \<Rightarrow> (error option \<times> redis) option" where
  "ProcessMessageBody depth E t0 now hdr body db =
     (case read_message_body depth E body hdr True of
        None \<Rightarrow> None
      | Some ((nntp, Some err), calls) \<Rightarrow> Some (Some err, db)
      | Some ((None, None), calls) \<Rightarrow> None
      | Some ((Some a, None), calls) \<Rightarrow> Some (None, RegisterPost E t0 now a db))"

text \<open>
  A signed envelope to run the model on: the header names the type \<open>message/rfc822\<close>, a key
  and a signature; the stand-in primitives refuse the signature.
\<close>

definition envelope_header :: MIMEHeader where
  "envelope_header =
     [''Content-Type'' \<mapsto> [''message/rfc822''],
      ''X-Pubkey-Ed25519'' \<mapsto> [''aa''],
      ''X-Signature-Ed25519-Sha512'' \<mapsto> [''bb'']]"

definition envelope_env :: env where
  "envelope_env =
     \<lparr>ParseMediaType = (\<lambda>v. Inr (v, Map.empty)),
      NextParts = (\<lambda>body boundary. ([], None)),
      ContentType = (\<lambda>h. MIMEHeader_Get h ''Content-Type''),
      Pubkey = (\<lambda>h. MIMEHeader_Get h ''X-Pubkey-Ed25519''),
      Get = (\<lambda>h k fallback. case h k of Some (v # vs) \<Rightarrow> v | _ \<Rightarrow> fallback),
      unhex = id,
      readMIMEHeader = (\<lambda>b. Inl (Lib ''no header'')),
      readAttachmentFromMimePartAndStore = (\<lambda>p store. None),
      createPlaintextAttachment = (\<lambda>str. \<lparr>Hash = [], Filename = [], Filepath = []\<rparr>),
      as_NNTPMessage = (\<lambda>a. article_abc),
      HashMessageID = id,
      primitives = refuse_all\<rparr>"

text \<open>
  A message that names the type \<open>message/rfc822\<close> and a boundary, with a key and a signature
  in its headers.  \<open>boundary_env\<close> answers for it as the library does: the media type is
  \<open>message/rfc822\<close>, the parameter \<open>boundary\<close> is \<open>xyz\<close>, and on a body that holds the closing
  delimiter of that boundary only the first \<open>NextPart\<close> returns \<^verbatim>\<open>io.EOF\<close>.  The accessors
  read the message-id and the newsgroup of an article from its headers.
\<close>

definition boundary_header :: MIMEHeader where
  "boundary_header =
     [''Content-Type'' \<mapsto> [''message/rfc822; boundary=xyz''],
      ''Message-ID'' \<mapsto> [''<forged@x>''],
      ''Newsgroups'' \<mapsto> [''overchan.test''],
      ''X-Pubkey-Ed25519'' \<mapsto> [''aa''],
      ''X-Signature-Ed25519-Sha512'' \<mapsto> [''bb'']]"

definition boundary_body :: reader where
  "boundary_body = [(''--xyz--'' @ [CR, LF], None)]"

definition boundary_env :: env where
  "boundary_env =
     envelope_env
       \<lparr>ParseMediaType :=
          (\<lambda>v. if v = ''message/rfc822; boundary=xyz''
               then Inr (''message/rfc822'', [''boundary'' \<mapsto> ''xyz''])
               else Inr (v, Map.empty)),
        NextParts :=
          (\<lambda>body boundary. if body = boundary_body \<and> boundary = ''xyz'' then ([], None)
                           else ([], Some (Lib ''multipart: NextPart: EOF''))),
        as_NNTPMessage :=
          (\<lambda>a. article_abc
                  \<lparr>MessageID := MIMEHeader_Get (art_headers a) ''Message-ID'',
                   Newsgroup := MIMEHeader_Get (art_headers a) ''Newsgroups''\<rparr>)\<rparr>"

definition forged_article :: NNTPMessage where
  "forged_article = article_abc\<lparr>MessageID := ''<forged@x>'', Newsgroup := ''overchan.test''\<rparr>"

text \<open>
  A body whose only \<open>Read\<close> returns its five bytes together with \<^verbatim>\<open>io.EOF\<close>, and stand-in
  primitives that accept a signature over the hash of the empty string and no other.
\<close>

definition eof_body :: reader where
  "eof_body = [(''inner'', Some EOF)]"

definition accept_empty :: crypto where
  "accept_empty =
     \<lparr>Sum512 = id, CryptoVerify = (\<lambda>smsg pk. False), CryptoVerifyFucky = (\<lambda>h s pk. h = [])\<rparr>"

definition eof_env :: env where
  "eof_env = envelope_env\<lparr>primitives := accept_empty\<rparr>"

section \<open>Banned addresses and address ranges (redis.go, lines 290-323, 825-877, 1059-1065)\<close>

text \<open>
  A bound of ZRANGEBYLEX as Redis reads it: \<open>-\<close> and \<open>+\<close> are the infinite bounds, a
  leading \<open>[\<close> makes the bound inclusive and a leading \<open>(\<close> exclusive; anything else is an
  error.
\<close>

datatype lex_bound = NegInf | PosInf | Incl string | Excl string

definition parse_lex_bound :: "string \<Rightarrow> lex_bound option" where
  "parse_lex_bound s =
     (if s = ''-'' then Some NegInf
      else if s = ''+'' then Some PosInf
      else case s of
             [] \<Rightarrow> None
           | c # x \<Rightarrow> (if c = CHR ''['' then Some (Incl x)
                       else if c = CHR ''('' then Some (Excl x)
                       else None))"

definition above_min :: "lex_bound \<Rightarrow> string \<Rightarrow> bool" where
  "above_min lo m = (case lo of NegInf \<Rightarrow> True | PosInf \<Rightarrow> False | Incl x \<Rightarrow> x \<le> m | Excl x \<Rightarrow> x < m)"

definition below_max :: "lex_bound \<Rightarrow> string \<Rightarrow> bool" where
  "below_max hi m = (case hi of NegInf \<Rightarrow> False | PosInf \<Rightarrow> True | Incl x \<Rightarrow> m \<le> x | Excl x \<Rightarrow> m < x)"

text \<open>
  \<open>ZRangeByLex\<close> with the client's \<open>ZRangeByScore{Min, Max, Count}\<close>: the members between
  the bounds in byte order, which is the order of a sorted set whose members all have the
  same score (the program adds every member of \<open>IP_RANGE_BAN_KR\<close> with score 0).  The
  client sends a LIMIT only when \<open>Count\<close> is not 0.  \<open>None\<close> is an error (wrong type, or a
  bound that does not parse).
\<close>

definition ZRangeByLex :: "redis \<Rightarrow> string \<Rightarrow> string \<Rightarrow> string \<Rightarrow> nat \<Rightarrow> string list option" where
  "ZRangeByLex db k mn mx count =
     (case (parse_lex_bound mn, parse_lex_bound mx) of
        (Some lo, Some hi) \<Rightarrow>
          (case db k of
             None \<Rightarrow> Some []
           | Some (RZSet z) \<Rightarrow>
               (let ms = filter (\<lambda>m. above_min lo m \<and> below_max hi m) (sorted_list_of_fset (fmdom z))
                in Some (if count = 0 then ms else take count ms))
           | Some _ \<Rightarrow> None)
      | _ \<Rightarrow> None)"

text \<open>
  The helpers that turn an address into its canonical zero-padded string are not among the
  sources at hand, and \<^verbatim>\<open>net.ParseIP\<close> is a library function: they are parameters.  An
  address is a list of bytes, a network an address with its mask.  \<open>IsSubnet\<close> returns the
  network when the string names one.
\<close>

record netlib =
  IsSubnet :: "string \<Rightarrow> (nat list \<times> nat list) option"
  IPNet2MinMax :: "nat list \<times> nat list \<Rightarrow> nat list \<times> nat list"
  ZeroIPString :: "nat list \<Rightarrow> string"
  ParseIP :: "string \<Rightarrow> nat list option"

text \<open>
  Lines 311-320 of \<open>CheckIPBanned\<close>: the smallest endpoint at or above \<open>start\<close> is looked up,
  and the address is banned when the start stored for that endpoint is not above
  \<open>range_start\<close>.  \<^verbatim>\<open>strings.Compare\<close> compares byte by byte, as the order on \<open>string\<close>
  does.
\<close>

definition check_range :: "redis \<Rightarrow> string \<Rightarrow> string \<Rightarrow> bool \<times> error option" where
  "check_range db start range_start =
     (case ZRangeByLex db IP_RANGE_BAN_KR (''['' @ start) ''+'' 1 of
        None \<Rightarrow> (False, Some (Lib ''redis''))
      | Some [] \<Rightarrow> (False, None)
      | Some (range_max # rest) \<Rightarrow>
          (case HGet db (IP_RANGE_BAN_PREFIX @ range_max) ''start'' of
             None \<Rightarrow> (False, Some (Lib ''redis''))
           | Some range_min \<Rightarrow> (range_min \<le> range_start, None)))"

text \<open>\<open>CheckIPBanned\<close> returns \<open>(banned, err)\<close>.\<close>

definition CheckIPBanned :: "netlib \<Rightarrow> redis \<Rightarrow> string \<Rightarrow> bool \<times> error option" where
  "CheckIPBanned N db addr =
     (if Exists db (IP_BAN_PREFIX @ addr) then (True, None)
      else case IsSubnet N addr of
             Some ipnet \<Rightarrow>
               (case IPNet2MinMax N ipnet of
                  (mn, mx) \<Rightarrow> check_range db (ZeroIPString N mx) (ZeroIPString N mn))
           | None \<Rightarrow>
               (case ParseIP N addr of
                  None \<Rightarrow> (False, Some (New ''Couldn't parse IP''))
                | Some ip \<Rightarrow> check_range db (ZeroIPString N ip) (ZeroIPString N ip)))"

text \<open>\<open>clearIPRange\<close> (lines 1059-1065); a failed ZRANGEBYLEX leaves nothing to loop over.\<close>

definition clearIPRange :: "string \<Rightarrow> string \<Rightarrow> redis \<Rightarrow> redis" where
  "clearIPRange start end' db =
     (let ranges = (case ZRangeByLex db IP_RANGE_BAN_KR (''('' @ start) (''['' @ end') 0 of
                      None \<Rightarrow> [] | Some rs \<Rightarrow> rs)
      in fold (\<lambda>iprange d. Del [IP_RANGE_BAN_PREFIX @ iprange] (ZRem IP_RANGE_BAN_KR iprange d))
              ranges db)"

text \<open>
  \<open>BanAddr\<close> (lines 825-846) returns the error and the database it leaves; \<open>now\<close> is the
  clock.  ZADD and HMSET fail on a key of another type.
\<close>

definition BanAddr :: "netlib \<Rightarrow> int \<Rightarrow> string \<Rightarrow> redis \<Rightarrow> error option \<times> redis" where
  "BanAddr N now addr db =
     (case IsSubnet N addr of
        None \<Rightarrow>
          ((case db (IP_BAN_PREFIX @ addr) of
              None \<Rightarrow> None | Some (RHash h) \<Rightarrow> None | Some _ \<Rightarrow> Some (Lib ''redis'')),
           HMSet (IP_BAN_PREFIX @ addr) [(''addr'', addr), (''made'', Itoa now)] db)
      | Some ipnet \<Rightarrow>
          (case CheckIPBanned N db addr of
             (isBanned, err) \<Rightarrow>
               if \<not> isBanned \<and> err = None then
                 (case IPNet2MinMax N ipnet of
                    (mn, mx) \<Rightarrow>
                      (let start = ZeroIPString N mn;
                           end' = ZeroIPString N mx;
                           d1 = clearIPRange start end' db
                       in if not_a_zset d1 IP_RANGE_BAN_KR then (Some (Lib ''redis''), d1)
                          else
                            ((case d1 (IP_RANGE_BAN_PREFIX @ end') of
                                None \<Rightarrow> None | Some (RHash h) \<Rightarrow> None | Some _ \<Rightarrow> Some (Lib ''redis'')),
                             HMSet (IP_RANGE_BAN_PREFIX @ end')
                               [(''start'', start), (''end'', end'), (''made'', Itoa now)]
                               (ZAdd IP_RANGE_BAN_KR 0 end' d1))))
               else (err, db)))"

text \<open>\<open>UnbanAddr\<close> (lines 848-877).\<close>

definition UnbanAddr :: "netlib \<Rightarrow> string \<Rightarrow> redis \<Rightarrow> error option \<times> redis" where
  "UnbanAddr N addr db =
     (let d0 = Del [IP_BAN_PREFIX @ addr] db
      in case IsSubnet N addr of
           None \<Rightarrow> (None, Del [IP_BAN_PREFIX @ addr] d0)
         | Some ipnet \<Rightarrow>
             (case IPNet2MinMax N ipnet of
                (mn, mx) \<Rightarrow>
                  (let range_start = ZeroIPString N mn;
                       start = ZeroIPString N mx
                   in case ZRangeByLex d0 IP_RANGE_BAN_KR (''['' @ start) ''+'' 1 of
                        None \<Rightarrow> (Some (Lib ''redis''), d0)
                      | Some [] \<Rightarrow> (None, d0)
                      | Some (range_max # rest) \<Rightarrow>
                          (case HGet d0 (IP_RANGE_BAN_PREFIX @ range_max) ''start'' of
                             None \<Rightarrow> (Some (Lib ''redis''), d0)
                           | Some range_min \<Rightarrow>
                               if range_min \<le> range_start
                               then (None, Del [IP_RANGE_BAN_PREFIX @ range_max]
                                             (ZRem IP_RANGE_BAN_KR range_max d0))
                               else (None, d0)))))"

text \<open>
  The view of the claim on the ban store: the endpoints of \<open>ip_range_ban\<close>, the start
  stored for an endpoint, and the \<open>(min, max)\<close> endpoints of a query (both the address
  itself for a single address; none when the string is neither a network nor an address).
\<close>

definition ip_range_ban :: "redis \<Rightarrow> string fset" where
  "ip_range_ban db = fmdom (ordering_at db IP_RANGE_BAN_KR)"

definition stored_start :: "redis \<Rightarrow> string \<Rightarrow> string option" where
  "stored_start db e = HGet db (IP_RANGE_BAN_PREFIX @ e) ''start''"

definition query_endpoints :: "netlib \<Rightarrow> string \<Rightarrow> (string \<times> string) option" where
  "query_endpoints N addr =
     (case IsSubnet N addr of
        Some ipnet \<Rightarrow>
          (case IPNet2MinMax N ipnet of (mn, mx) \<Rightarrow> Some (ZeroIPString N mn, ZeroIPString N mx))
      | None \<Rightarrow>
          (case ParseIP N addr of
             None \<Rightarrow> None
           | Some ip \<Rightarrow> Some (ZeroIPString N ip, ZeroIPString N ip)))"




text \<open>The smallest endpoint of \<open>ip_range_ban\<close> at or above \<open>mx\<close>.\<close>

definition smallest_endpoint :: "redis \<Rightarrow> string \<Rightarrow> string \<Rightarrow> bool" where
  "smallest_endpoint db mx e \<longleftrightarrow>
     e |\<in>| ip_range_ban db \<and> mx \<le> e \<and> (\<forall>e'. e' |\<in>| ip_range_ban db \<longrightarrow> mx \<le> e' \<longrightarrow> e \<le> e')"


text \<open>
  The stores that the program builds from the empty one.  \<open>BanAddr\<close>, \<open>UnbanAddr\<close> and
  \<open>clearIPRange\<close> (called by \<open>BanAddr\<close> only) are the only places of redis.go that write
  \<open>IP_RANGE_BAN_KR\<close> or a key that begins with \<open>IP_RANGE_BAN_PREFIX\<close>; the last rule stands
  for every other operation: it may change any other key.
\<close>

inductive ban_reachable :: "netlib \<Rightarrow> redis \<Rightarrow> bool" for N :: netlib where
  start_empty: "ban_reachable N Map.empty"
| after_ban: "ban_reachable N db \<Longrightarrow> ban_reachable N (snd (BanAddr N now addr db))"
| after_unban: "ban_reachable N db \<Longrightarrow> ban_reachable N (snd (UnbanAddr N addr db))"
| after_other:
    "ban_reachable N db \<Longrightarrow> db' IP_RANGE_BAN_KR = db IP_RANGE_BAN_KR \<Longrightarrow>
     (\<And>x. db' (IP_RANGE_BAN_PREFIX @ x) = db (IP_RANGE_BAN_PREFIX @ x)) \<Longrightarrow>
     ban_reachable N db'"

text \<open>
  Helpers to run the model on: they know the network 10.0.0.0/16 and the address 10.0.0.7,
  and print the four bytes of an address with three digits each.
\<close>

definition ipv4_lib :: netlib where
  "ipv4_lib =
     \<lparr>IsSubnet = (\<lambda>addr. if addr = ''10.0.0.0/16'' then Some ([10, 0, 0, 0], [255, 255, 0, 0]) else None),
      IPNet2MinMax = (\<lambda>(ip, mask). (ip, map2 (\<lambda>b m. b + (255 - m)) ip mask)),
      ZeroIPString = (\<lambda>ip. butlast (concat (map (\<lambda>b. [digit (b div 100), digit (b div 10), digit b, CHR ''.'']) ip))),
      ParseIP = (\<lambda>addr. if addr = ''10.0.0.7'' then Some [10, 0, 0, 7] else None)\<rparr>"

text \<open>A range record as \<open>BanAddr\<close> writes it (lines 837-842), without the clock.\<close>

definition put_range :: "string \<Rightarrow> string \<Rightarrow> redis \<Rightarrow> redis" where
  "put_range start end' db =
     HMSet (IP_RANGE_BAN_PREFIX @ end') [(''start'', start), (''end'', end')]
       (ZAdd IP_RANGE_BAN_KR 0 end' db)"

text \<open>
  A store that holds the range of 10.0.1.0/24 and the range of 10.0.0.0/16 around it, written
  key by key, and the store that \<open>BanAddr\<close> builds for 10.0.0.0/16 from the empty one.
\<close>

definition nested_ranges_db :: redis where
  "nested_ranges_db =
     put_range ''010.000.001.000'' ''010.000.001.255''
       (put_range ''010.000.000.000'' ''010.000.255.255'' Map.empty)"


section \<open>Theorems\<close>

lemmas key_defs =
  APP_PREFIX_def ARTICLE_PREFIX_def ARTICLE_POST_PREFIX_def ARTICLE_KEY_PREFIX_def
  HASH_MESSAGEID_PREFIX_def ATTACHMENT_PREFIX_def IP_BAN_PREFIX_def IP_RANGE_BAN_PREFIX_def
  GROUP_POSTTIME_WKR_def GROUP_ARTICLE_POSTTIME_WKR_PREFIX_def
  GROUP_THREAD_POSTTIME_WKR_PREFIX_def GROUP_THREAD_BUMPTIME_WKR_PREFIX_def
  THREAD_POST_WKR_def ARTICLE_WKR_def THREAD_BUMPTIME_WKR_def HEADER_KR_PREFIX_def
  MESSAGEID_HEADER_KR_PREFIX_def ARTICLE_ATTACHMENT_KR_PREFIX_def
  ATTACHMENT_ARTICLE_KR_PREFIX_def IP_RANGE_BAN_KR_def

subsection \<open>Each command changes its own key only\<close>


lemma HMSet_other [simp]: "k' \<noteq> k \<Longrightarrow> HMSet k fvs db k' = db k'"
  by (simp add: HMSet_def split: option.splits rvalue.splits)
lemma HSetNX_other [simp]: "k' \<noteq> k \<Longrightarrow> HSetNX k f v db k' = db k'"
  by (simp add: HSetNX_def split: option.splits rvalue.splits)
lemma Set_cmd_other [simp]: "k' \<noteq> k \<Longrightarrow> Set_cmd k v db k' = db k'"
  by (simp add: Set_cmd_def)
lemma SAdd_other [simp]: "k' \<noteq> k \<Longrightarrow> SAdd k m db k' = db k'"
  by (simp add: SAdd_def split: option.splits rvalue.splits)
lemma ZAddNX_other [simp]: "k' \<noteq> k \<Longrightarrow> ZAddNX k s m db k' = db k'"
  by (simp add: ZAddNX_def split: option.splits rvalue.splits)
lemma ZAddXX_other [simp]: "k' \<noteq> k \<Longrightarrow> ZAddXX k s m db k' = db k'"
  by (simp add: ZAddXX_def split: option.splits rvalue.splits)

lemma ZAddNX_same:
  "ZAddNX k s m db k =
     (case db k of
        None \<Rightarrow> Some (RZSet (fmupd m s fmempty))
      | Some (RZSet z) \<Rightarrow> Some (RZSet (if m |\<in>| fmdom z then z else fmupd m s z))
      | Some v \<Rightarrow> Some v)"
  by (simp add: ZAddNX_def split: option.splits rvalue.splits)

lemma ZAddXX_same:
  "ZAddXX k s m db k =
     (case db k of
        Some (RZSet z) \<Rightarrow> Some (RZSet (if m |\<in>| fmdom z then fmupd m s z else z))
      | v \<Rightarrow> v)"
  by (simp add: ZAddXX_def split: option.splits rvalue.splits)

lemma register_header_other:
  assumes "\<And>x. K \<noteq> HEADER_KR_PREFIX @ x" and "K \<noteq> MESSAGEID_HEADER_KR_PREFIX @ msgid"
  shows "register_header msgid k val db K = db K"
  unfolding register_header_def
  using assms by (induction val arbitrary: db) simp_all

lemma register_headers_other:
  assumes "\<And>x. K \<noteq> HEADER_KR_PREFIX @ x" and "K \<noteq> MESSAGEID_HEADER_KR_PREFIX @ msgid"
  shows "register_headers msgid hdrs db K = db K"
  unfolding register_headers_def
  using assms by (induction hdrs arbitrary: db) (simp_all add: register_header_other split: prod.splits)

lemma register_attachment_other:
  assumes "\<And>x. K \<noteq> ATTACHMENT_ARTICLE_KR_PREFIX @ x" and "K \<noteq> ARTICLE_ATTACHMENT_KR_PREFIX @ msgid"
    and "\<And>x. K \<noteq> ATTACHMENT_PREFIX @ x"
  shows "register_attachment msgid att db K = db K"
  using assms by (simp add: register_attachment_def Let_def)

lemma register_attachments_other:
  assumes "\<And>x. K \<noteq> ATTACHMENT_ARTICLE_KR_PREFIX @ x" and "K \<noteq> ARTICLE_ATTACHMENT_KR_PREFIX @ msgid"
    and "\<And>x. K \<noteq> ATTACHMENT_PREFIX @ x"
  shows "register_attachments msgid atts db K = db K"
  unfolding register_attachments_def
  using assms by (induction atts arbitrary: db) (simp_all add: register_attachment_other)

lemma register_thread_other:
  assumes "\<And>x. K \<noteq> GROUP_THREAD_POSTTIME_WKR_PREFIX @ x" "\<And>x. K \<noteq> GROUP_THREAD_BUMPTIME_WKR_PREFIX @ x"
    "K \<noteq> THREAD_BUMPTIME_WKR" "\<And>x. K \<noteq> THREAD_POST_WKR @ x"
  shows "register_thread message db K = db K"
  using assms by (simp add: register_thread_def Let_def)

lemma RegisterArticle_article_score:
  assumes "\<not> HasArticle db (MessageID message)"
  shows "fmlookup (group_article_posttime (RegisterArticle H t0 now message db) (Newsgroup message))
            (MessageID message) =
     (if not_a_zset db (GROUP_ARTICLE_POSTTIME_WKR_PREFIX @ Newsgroup message) then None
      else case fmlookup (group_article_posttime db (Newsgroup message)) (MessageID message) of
             None \<Rightarrow> Some now
           | Some s \<Rightarrow> Some s)"
proof -
  let ?K = "GROUP_ARTICLE_POSTTIME_WKR_PREFIX @ Newsgroup message"
  define db0 where
    "db0 = (if \<not> HasNewsgroup db (Newsgroup message) then RegisterNewsgroup t0 (Newsgroup message) db else db)"
  have ex: "\<not> HasArticle db0 (MessageID message)"
    using assms by (simp add: db0_def HasArticle_def Exists_def RegisterNewsgroup_def key_defs)
  have K0: "db0 ?K = db ?K"
    by (simp add: db0_def RegisterNewsgroup_def key_defs)
  have "RegisterArticle H t0 now message db ?K = ZAddNX ?K now (MessageID message) db0 ?K"
    using ex unfolding RegisterArticle_def Let_def db0_def [symmetric]
    apply (simp only: if_False if_True)
    apply (subst register_attachments_other; (simp add: key_defs; fail)?)
    apply (subst register_headers_other; (simp add: key_defs; fail)?)
    apply (subst register_thread_other; (simp add: key_defs; fail)?)
    apply (simp add: key_defs ZAddNX_same)
    done
  then show ?thesis
    by (auto simp add: group_article_posttime_def ordering_at_def not_a_zset_def ZAddNX_same K0
                       fmlookup_dom_iff
             split: option.splits rvalue.splits)
qed


lemma HMSet_same:
  "HMSet k fvs db k =
     (case db k of
        None \<Rightarrow> Some (RHash (fold (\<lambda>(f, v). fmupd f v) fvs fmempty))
      | Some (RHash h) \<Rightarrow> Some (RHash (fold (\<lambda>(f, v). fmupd f v) fvs h))
      | Some v \<Rightarrow> Some v)"
  by (simp add: HMSet_def split: option.splits rvalue.splits)

lemma HasNewsgroup_iff:
  "HasNewsgroup db grp \<longleftrightarrow> (\<exists>z. db GROUP_POSTTIME_WKR = Some (RZSet z) \<and> grp |\<in>| fmdom z)"
  by (auto simp add: HasNewsgroup_def ZRank_def fmlookup_dom_iff split: option.splits rvalue.splits)

lemma settled_fix:
  "newsgroup_settled db grp \<Longrightarrow>
     (if \<not> HasNewsgroup db grp then RegisterNewsgroup t grp db else db) = db"
  by (auto simp add: newsgroup_settled_def HasNewsgroup_iff RegisterNewsgroup_def ZAddNX_def
           split: option.splits rvalue.splits)

lemma settled_after:
  "newsgroup_settled (if \<not> HasNewsgroup db grp then RegisterNewsgroup t grp db else db) grp"
  by (auto simp add: newsgroup_settled_def HasNewsgroup_iff RegisterNewsgroup_def ZAddNX_def
           split: option.splits rvalue.splits)

lemma settled_cong:
  "db' GROUP_POSTTIME_WKR = ZAddXX GROUP_POSTTIME_WKR now grp db GROUP_POSTTIME_WKR \<Longrightarrow>
   newsgroup_settled db grp \<Longrightarrow> newsgroup_settled db' grp"
  by (auto simp add: newsgroup_settled_def ZAddXX_same split: option.splits rvalue.splits if_splits)

lemma if_app: "(if c then f else g) x = (if c then f x else g x)"
  by simp

lemma pipeline_at_group_posttime:
  assumes "\<not> HasArticle db0 (MessageID message)"
    and "db0 = (if \<not> HasNewsgroup db (Newsgroup message) then RegisterNewsgroup t0 (Newsgroup message) db else db)"
  shows "RegisterArticle H t0 now message db GROUP_POSTTIME_WKR =
           ZAddXX GROUP_POSTTIME_WKR now (Newsgroup message) db0 GROUP_POSTTIME_WKR"
  using assms(1) unfolding RegisterArticle_def Let_def assms(2) [symmetric]
  apply (simp only: if_False if_True)
  apply (subst register_attachments_other; (simp add: key_defs; fail)?)
  apply (subst register_headers_other; (simp add: key_defs; fail)?)
  apply (subst register_thread_other; (simp add: key_defs; fail)?)
  apply (simp add: key_defs if_app ZAddXX_same split: option.splits rvalue.splits)
  done

lemma pipeline_at_article:
  assumes "\<not> HasArticle db0 (MessageID message)"
    and "db0 = (if \<not> HasNewsgroup db (Newsgroup message) then RegisterNewsgroup t0 (Newsgroup message) db else db)"
  shows "RegisterArticle H t0 now message db (ARTICLE_PREFIX @ MessageID message) \<noteq> None"
  using assms(1) unfolding RegisterArticle_def Let_def assms(2) [symmetric]
  apply (simp only: if_False if_True)
  apply (subst register_attachments_other; (simp add: key_defs; fail)?)
  apply (subst register_headers_other; (simp add: key_defs; fail)?)
  apply (subst register_thread_other; (simp add: key_defs; fail)?)
  apply (simp add: key_defs HMSet_same HasArticle_def Exists_def)
  done

lemma RegisterArticle_present:
  assumes "HasArticle db (MessageID message)"
  shows "RegisterArticle H t0 now message db =
           (if HasNewsgroup db (Newsgroup message) then db
            else RegisterNewsgroup t0 (Newsgroup message) db)"
proof -
  have "HasArticle (RegisterNewsgroup t0 (Newsgroup message) db) (MessageID message)"
    using assms by (simp add: HasArticle_def Exists_def RegisterNewsgroup_def key_defs)
  then show ?thesis
    using assms by (simp add: RegisterArticle_def Let_def)
qed

lemma RegisterArticle_twice:
  "RegisterArticle H t2 t3 message (RegisterArticle H t0 t1 message db) =
     RegisterArticle H t0 t1 message db"
proof -
  let ?grp = "Newsgroup message"
  define db0 where
    "db0 = (if \<not> HasNewsgroup db ?grp then RegisterNewsgroup t0 ?grp db else db)"
  define db' where "db' = RegisterArticle H t0 t1 message db"
  have s0: "newsgroup_settled db0 ?grp"
    unfolding db0_def by (rule settled_after)
  have "HasArticle db' (MessageID message) \<and> newsgroup_settled db' ?grp"
  proof (cases "HasArticle db0 (MessageID message)")
    case True
    then have "db' = db0"
      unfolding db'_def RegisterArticle_def Let_def db0_def
      by (simp only: if_True)
    with True s0 show ?thesis by simp
  next
    case False
    have a: "db' (ARTICLE_PREFIX @ MessageID message) \<noteq> None"
      unfolding db'_def by (rule pipeline_at_article [OF False]) (simp add: db0_def)
    have "db' GROUP_POSTTIME_WKR = ZAddXX GROUP_POSTTIME_WKR t1 ?grp db0 GROUP_POSTTIME_WKR"
      unfolding db'_def
      by (rule pipeline_at_group_posttime [OF False]) (simp add: db0_def)
    then have "newsgroup_settled db' ?grp"
      using s0 by (rule settled_cong)
    with a show ?thesis by (simp add: HasArticle_def Exists_def)
  qed
  then have h: "HasArticle db' (MessageID message)"
    and f: "(if \<not> HasNewsgroup db' ?grp then RegisterNewsgroup t2 ?grp db' else db') = db'"
    using settled_fix [of db' ?grp t2] by blast+
  have "RegisterArticle H t2 t3 message db' = db'"
    unfolding RegisterArticle_def Let_def f using h by (simp only: if_True)
  then show ?thesis by (simp add: db'_def)
qed


lemma ZAddXX_cong: "d K = d' K \<Longrightarrow> ZAddXX k s m d K = ZAddXX k s m d' K"
  by (cases "K = k") (simp_all add: ZAddXX_same)

lemma ZAddNX_cong: "d K = d' K \<Longrightarrow> ZAddNX k s m d K = ZAddNX k s m d' K"
  by (cases "K = k") (simp_all add: ZAddNX_same)

lemma register_thread_cong:
  "d K = d' K \<Longrightarrow> register_thread message d K = register_thread message d' K"
  unfolding register_thread_def Let_def
  by (auto intro!: ZAddXX_cong ZAddNX_cong)

lemma pipeline_at_thread_key:
  assumes "\<not> HasArticle db (MessageID message)"
    and "K = GROUP_THREAD_POSTTIME_WKR_PREFIX @ x \<or> K = GROUP_THREAD_BUMPTIME_WKR_PREFIX @ x
         \<or> K = THREAD_BUMPTIME_WKR \<or> K = THREAD_POST_WKR @ x"
  shows "RegisterArticle H t0 now message db K = register_thread message db K"
proof -
  define db0 where
    "db0 = (if \<not> HasNewsgroup db (Newsgroup message) then RegisterNewsgroup t0 (Newsgroup message) db else db)"
  have ex: "\<not> HasArticle db0 (MessageID message)"
    using assms(1) by (simp add: db0_def HasArticle_def Exists_def RegisterNewsgroup_def key_defs)
  have K0: "db0 K = db K"
    using assms(2) by (auto simp add: db0_def RegisterNewsgroup_def key_defs)
  show ?thesis
    using ex unfolding RegisterArticle_def Let_def db0_def [symmetric]
    apply (simp only: if_False if_True)
    apply (subst register_attachments_other; (insert assms(2), auto simp add: key_defs; fail)?)
    apply (subst register_headers_other; (insert assms(2), auto simp add: key_defs; fail)?)
    apply (rule register_thread_cong)
    apply (insert assms(2) K0)
    apply (auto simp add: key_defs if_app)
    done
qed

lemma register_thread_reply:
  assumes "\<not> OP message"
  shows "register_thread message db (GROUP_THREAD_BUMPTIME_WKR_PREFIX @ Newsgroup message) =
           (if Sage message then db (GROUP_THREAD_BUMPTIME_WKR_PREFIX @ Newsgroup message)
            else ZAddXX (GROUP_THREAD_BUMPTIME_WKR_PREFIX @ Newsgroup message) (Posted message)
                   (Reference message) db (GROUP_THREAD_BUMPTIME_WKR_PREFIX @ Newsgroup message))"
    and "register_thread message db THREAD_BUMPTIME_WKR =
           (if Sage message then db THREAD_BUMPTIME_WKR
            else ZAddXX THREAD_BUMPTIME_WKR (Posted message) (Reference message) db THREAD_BUMPTIME_WKR)"
    and "register_thread message db (GROUP_THREAD_POSTTIME_WKR_PREFIX @ Newsgroup message) =
           ZAddXX (GROUP_THREAD_POSTTIME_WKR_PREFIX @ Newsgroup message) (Posted message)
             (Reference message) db (GROUP_THREAD_POSTTIME_WKR_PREFIX @ Newsgroup message)"
    and "register_thread message db (THREAD_POST_WKR @ Reference message) =
           ZAddNX (THREAD_POST_WKR @ Reference message) (Posted message) (MessageID message) db
             (THREAD_POST_WKR @ Reference message)"
  using assms
  by (simp_all add: register_thread_def Let_def key_defs ZAddXX_same ZAddNX_same)


lemma RegisterArticle_reply:
  fixes H :: "string \<Rightarrow> string" and t0 now :: int and message :: NNTPMessage and db :: redis
  assumes "\<not> HasArticle db (MessageID message)" and "\<not> OP message"
  defines "db' \<equiv> RegisterArticle H t0 now message db"
  shows "group_thread_bumptime db' (Newsgroup message) =
           (if Sage message \<or> Reference message |\<notin>| fmdom (group_thread_bumptime db (Newsgroup message))
            then group_thread_bumptime db (Newsgroup message)
            else fmupd (Reference message) (Posted message) (group_thread_bumptime db (Newsgroup message)))"
    and "thread_bumptime_all db' =
           (if Sage message \<or> Reference message |\<notin>| fmdom (thread_bumptime_all db)
            then thread_bumptime_all db
            else fmupd (Reference message) (Posted message) (thread_bumptime_all db))"
    and "group_thread_posttime db' (Newsgroup message) =
           (if Reference message |\<in>| fmdom (group_thread_posttime db (Newsgroup message))
            then fmupd (Reference message) (Posted message) (group_thread_posttime db (Newsgroup message))
            else group_thread_posttime db (Newsgroup message))"
    and "thread_posts db' (Reference message) =
           (if MessageID message |\<in>| fmdom (thread_posts db (Reference message))
               \<or> not_a_zset db (THREAD_POST_WKR @ Reference message)
            then thread_posts db (Reference message)
            else fmupd (MessageID message) (Posted message) (thread_posts db (Reference message)))"
proof -
  note pk = pipeline_at_thread_key [OF assms(1), of _ _ H t0 now]
  note rt = register_thread_reply [OF assms(2), of db]
  show "group_thread_bumptime db' (Newsgroup message) =
           (if Sage message \<or> Reference message |\<notin>| fmdom (group_thread_bumptime db (Newsgroup message))
            then group_thread_bumptime db (Newsgroup message)
            else fmupd (Reference message) (Posted message) (group_thread_bumptime db (Newsgroup message)))"
    unfolding group_thread_bumptime_def ordering_at_def db'_def
    by (subst pk [where x = "Newsgroup message"], simp)
       (simp add: rt ZAddXX_same split: option.splits rvalue.splits)
  show "thread_bumptime_all db' =
           (if Sage message \<or> Reference message |\<notin>| fmdom (thread_bumptime_all db)
            then thread_bumptime_all db
            else fmupd (Reference message) (Posted message) (thread_bumptime_all db))"
    unfolding thread_bumptime_all_def ordering_at_def db'_def
    by (subst pk [where x = "[]"], simp)
       (simp add: rt ZAddXX_same split: option.splits rvalue.splits)
  show "group_thread_posttime db' (Newsgroup message) =
           (if Reference message |\<in>| fmdom (group_thread_posttime db (Newsgroup message))
            then fmupd (Reference message) (Posted message) (group_thread_posttime db (Newsgroup message))
            else group_thread_posttime db (Newsgroup message))"
    unfolding group_thread_posttime_def ordering_at_def db'_def
    by (subst pk [where x = "Newsgroup message"], simp)
       (simp add: rt ZAddXX_same split: option.splits rvalue.splits)
  show "thread_posts db' (Reference message) =
           (if MessageID message |\<in>| fmdom (thread_posts db (Reference message))
               \<or> not_a_zset db (THREAD_POST_WKR @ Reference message)
            then thread_posts db (Reference message)
            else fmupd (MessageID message) (Posted message) (thread_posts db (Reference message)))"
    unfolding thread_posts_def ordering_at_def db'_def not_a_zset_def
    by (subst pk [where x = "Reference message"], simp)
       (simp add: rt ZAddNX_same split: option.splits rvalue.splits)
qed

subsection \<open>The article numbers of a group\<close>

text \<open>
  C2, as stated, fails: with one article in the group the ordering has cardinality 1, and
  \<open>GetLastAndFirstForGroup\<close> answers \<open>last = 2\<close>.
\<close>

theorem C2_last_is_not_cardinality_counterexample:
  "ZCard (ZAddNX (GROUP_ARTICLE_POSTTIME_WKR_PREFIX @ ''overchan.test'') 1136239445 ''<abc@x>'' Map.empty)
         (GROUP_ARTICLE_POSTTIME_WKR_PREFIX @ ''overchan.test'') = Some 1
   \<and> GetLastAndFirstForGroup
         (ZAddNX (GROUP_ARTICLE_POSTTIME_WKR_PREFIX @ ''overchan.test'') 1136239445 ''<abc@x>'' Map.empty)
         ''overchan.test'' = (2, 1, False)"
  by (simp add: GetLastAndFirstForGroup_def ZCard_def ZAddNX_def fcard_finsert_if)

text \<open>
  C2, amended: for every database and group, \<open>first\<close> is 1; \<open>last\<close> is 0 when the ordering
  \<open>group_article_posttime[group]\<close> is empty and its cardinality plus one otherwise.  The
  error flag is set exactly when ZCARD failed.
\<close>

theorem C2_GetLastAndFirstForGroup:
  "GetLastAndFirstForGroup db grp =
     (let n = int (fcard (fmdom (group_article_posttime db grp)))
      in (if n = 0 then 0 else n + 1, 1, ZCard db (GROUP_ARTICLE_POSTTIME_WKR_PREFIX @ grp) = None))"
  by (auto simp add: GetLastAndFirstForGroup_def ZCard_def group_article_posttime_def
           ordering_at_def Let_def
           split: option.splits rvalue.splits)

subsection \<open>What an article's entry in the per-group ordering is scored by\<close>

text \<open>
  C1, as stated, fails: the article \<open><abc@x>\<close>, whose Date header gives posted time
  1136239445, registered when the clock reads 1700000000, is entered in
  \<open>group_article_posttime[overchan.test]\<close> with score 1700000000.
\<close>

theorem C1_scored_by_clock_counterexample:
  "Posted article_abc = 1136239445 \<and>
   fmlookup (group_article_posttime
               (RegisterArticle id 1700000000 1700000000 article_abc Map.empty) ''overchan.test'')
            ''<abc@x>'' = Some 1700000000"
  using RegisterArticle_article_score [of Map.empty article_abc id 1700000000 1700000000]
  by (simp add: article_abc_def HasArticle_def Exists_def not_a_zset_def
                group_article_posttime_def ordering_at_def)

text \<open>
  C1, amended: for every article registered via \<open>RegisterArticle\<close> that is not yet in the
  index, its entry in \<open>group_article_posttime[group]\<close> is scored by the wall-clock time of
  registration (\<open>now\<close>), not by the posted time of its headers; a message-id that is
  already a member of that ordering keeps the score it has (ZADD NX), and nothing is entered
  when the key holds a value that is not a sorted set.
\<close>

theorem C1_article_scored_by_registration_time:
  "\<not> HasArticle db (MessageID message) \<Longrightarrow>
   fmlookup (group_article_posttime (RegisterArticle H t0 now message db) (Newsgroup message))
            (MessageID message) =
     (if not_a_zset db (GROUP_ARTICLE_POSTTIME_WKR_PREFIX @ Newsgroup message) then None
      else case fmlookup (group_article_posttime db (Newsgroup message)) (MessageID message) of
             None \<Rightarrow> Some now
           | Some s \<Rightarrow> Some s)"
  by (rule RegisterArticle_article_score)

theorem C1_article_scored_by_registration_time_witness:
  "\<not> HasArticle Map.empty (MessageID article_abc) \<and>
   fmlookup (group_article_posttime
               (RegisterArticle id 1700000000 1700000001 article_abc Map.empty)
               (Newsgroup article_abc))
            (MessageID article_abc) = Some 1700000001"
  using C1_article_scored_by_registration_time [of Map.empty article_abc id 1700000000 1700000001]
  by (simp add: article_abc_def HasArticle_def Exists_def not_a_zset_def
                group_article_posttime_def ordering_at_def)

subsection \<open>Replies and the thread orderings\<close>

text \<open>
  C4, as stated, fails: the reply \<open><ghi@x>\<close> is not sage; registered in an index that
  does not list its root \<open><abc@x>\<close> (the reply arrived first), it leaves the root without
  any bump time and without any post time.
\<close>

theorem C4_root_not_listed_counterexample:
  "\<not> OP reply_ghi \<and> \<not> Sage reply_ghi \<and> Reference reply_ghi = ''<abc@x>'' \<and>
   fmlookup (group_thread_bumptime (RegisterArticle id 1700000000 1700000000 reply_ghi Map.empty)
               (Newsgroup reply_ghi)) ''<abc@x>'' = None \<and>
   fmlookup (group_thread_posttime (RegisterArticle id 1700000000 1700000000 reply_ghi Map.empty)
               (Newsgroup reply_ghi)) ''<abc@x>'' = None"
  using RegisterArticle_reply(1,3) [of Map.empty reply_ghi id 1700000000 1700000000]
  by (simp add: reply_ghi_def HasArticle_def Exists_def group_thread_bumptime_def
                group_thread_posttime_def ordering_at_def)

text \<open>
  C4, amended: for every reply registered via \<open>RegisterArticle\<close> that is not yet in the
  index, with \<open>posted\<close> its posted time and \<open>root\<close> its reference:
  \<^item> \<open>group_thread_bumptime[group]\<close> and \<open>thread_bumptime_all\<close> are unchanged when the reply
    is sage; when it is not sage, the root's score in each becomes \<open>posted\<close> if the root is
    already a member, and the ordering is unchanged if it is not (ZADD XX);
  \<^item> in both cases the root's score in \<open>group_thread_posttime[group]\<close> becomes \<open>posted\<close>
    if the root is already a member, and that ordering is unchanged if it is not;
  \<^item> in both cases the reply is a member of \<open>thread_posts[root]\<close> afterwards, with score
    \<open>posted\<close>, unless it was a member before (it keeps its score) or the key holds a
    value that is not a sorted set (nothing changes).
\<close>

theorem C4_reply_thread_orderings:
  assumes "\<not> HasArticle db (MessageID message)" and "\<not> OP message"
  shows "group_thread_bumptime (RegisterArticle H t0 now message db) (Newsgroup message) =
           (if Sage message \<or> Reference message |\<notin>| fmdom (group_thread_bumptime db (Newsgroup message))
            then group_thread_bumptime db (Newsgroup message)
            else fmupd (Reference message) (Posted message)
                   (group_thread_bumptime db (Newsgroup message)))
       \<and> thread_bumptime_all (RegisterArticle H t0 now message db) =
           (if Sage message \<or> Reference message |\<notin>| fmdom (thread_bumptime_all db)
            then thread_bumptime_all db
            else fmupd (Reference message) (Posted message) (thread_bumptime_all db))
       \<and> group_thread_posttime (RegisterArticle H t0 now message db) (Newsgroup message) =
           (if Reference message |\<in>| fmdom (group_thread_posttime db (Newsgroup message))
            then fmupd (Reference message) (Posted message)
                   (group_thread_posttime db (Newsgroup message))
            else group_thread_posttime db (Newsgroup message))
       \<and> thread_posts (RegisterArticle H t0 now message db) (Reference message) =
           (if MessageID message |\<in>| fmdom (thread_posts db (Reference message))
               \<or> not_a_zset db (THREAD_POST_WKR @ Reference message)
            then thread_posts db (Reference message)
            else fmupd (MessageID message) (Posted message) (thread_posts db (Reference message)))"
  using RegisterArticle_reply [OF assms, of H t0 now] by blast

theorem C4_reply_thread_orderings_witness:
  "\<not> HasArticle thread_abc_db (MessageID reply_def) \<and> \<not> OP reply_def \<and> Sage reply_def \<and>
   fmlookup (group_thread_bumptime (RegisterArticle id 1700000000 1700000000 reply_def thread_abc_db)
               ''overchan.test'') ''<abc@x>'' = Some 1136239445 \<and>
   fmlookup (thread_bumptime_all (RegisterArticle id 1700000000 1700000000 reply_def thread_abc_db))
            ''<abc@x>'' = Some 1136239445 \<and>
   fmlookup (group_thread_posttime (RegisterArticle id 1700000000 1700000000 reply_def thread_abc_db)
               ''overchan.test'') ''<abc@x>'' = Some 1136239500 \<and>
   fmlookup (thread_posts (RegisterArticle id 1700000000 1700000000 reply_def thread_abc_db)
               ''<abc@x>'') ''<def@x>'' = Some 1136239500"
proof -
  have h: "\<not> HasArticle thread_abc_db (MessageID reply_def)"
    by (simp add: thread_abc_db_def reply_def_def HasArticle_def Exists_def key_defs)
  have o: "\<not> OP reply_def"
    by (simp add: reply_def_def)
  show ?thesis
    using h o C4_reply_thread_orderings [OF h o, of id 1700000000 1700000000]
    by (simp add: thread_abc_db_def reply_def_def group_thread_bumptime_def
                  thread_bumptime_all_def group_thread_posttime_def thread_posts_def
                  ordering_at_def not_a_zset_def ZAddNX_same key_defs)
qed

subsection \<open>Registering an article that is already in the index\<close>

text \<open>
  C9, as stated, fails: \<open><abc@x>\<close> is registered in group overchan.test; registering an
  article with the same message-id that names the group overchan.other finds the message-id
  present, and still enters overchan.other in the \<open>group_posttime\<close> ordering.
\<close>

theorem C9_duplicate_registers_group_counterexample:
  "HasArticle (RegisterArticle id 1 1 article_abc Map.empty)
              (MessageID (article_abc\<lparr>Newsgroup := ''overchan.other''\<rparr>)) \<and>
   fmlookup (group_posttime (RegisterArticle id 1 1 article_abc Map.empty)) ''overchan.other'' = None \<and>
   fmlookup (group_posttime
               (RegisterArticle id 2 2 (article_abc\<lparr>Newsgroup := ''overchan.other''\<rparr>)
                  (RegisterArticle id 1 1 article_abc Map.empty))) ''overchan.other'' = Some 2"
proof -
  let ?db1 = "RegisterArticle id 1 1 article_abc Map.empty"
  let ?db0 = "RegisterNewsgroup 1 ''overchan.test'' Map.empty"
  have n: "\<not> HasArticle ?db0 (MessageID article_abc)"
    by (simp add: HasArticle_def Exists_def RegisterNewsgroup_def key_defs)
  have e: "?db0 = (if \<not> HasNewsgroup Map.empty (Newsgroup article_abc)
                   then RegisterNewsgroup 1 (Newsgroup article_abc) Map.empty else Map.empty)"
    by (simp add: HasNewsgroup_iff article_abc_def)
  have a: "HasArticle ?db1 ''<abc@x>''"
    using pipeline_at_article [OF n e, of id 1]
    by (simp add: HasArticle_def Exists_def article_abc_def)
  have g: "?db1 GROUP_POSTTIME_WKR = Some (RZSet (fmupd ''overchan.test'' 1 fmempty))"
    using pipeline_at_group_posttime [OF n e, of id 1]
    by (simp add: article_abc_def RegisterNewsgroup_def ZAddXX_same ZAddNX_same)
  have p: "RegisterArticle id 2 2 (article_abc\<lparr>Newsgroup := ''overchan.other''\<rparr>) ?db1 =
             RegisterNewsgroup 2 ''overchan.other'' ?db1"
    using a g RegisterArticle_present [of ?db1 "article_abc\<lparr>Newsgroup := ''overchan.other''\<rparr>" id 2 2]
    by (simp add: article_abc_def HasNewsgroup_iff)
  show ?thesis
    unfolding p using a g
    by (simp add: article_abc_def group_posttime_def ordering_at_def RegisterNewsgroup_def
                  ZAddNX_same)
qed

text \<open>
  C9, amended: registering an article whose message-id is already present changes nothing
  in the index except \<open>group_posttime\<close>, where the article's newsgroup is entered if it is
  not yet a member; and registering the same article twice leaves the same state as
  registering it once.
\<close>

theorem C9_register_article_idempotent:
  "(HasArticle db (MessageID message) \<longrightarrow>
      RegisterArticle H t0 now message db =
        (if HasNewsgroup db (Newsgroup message) then db
         else RegisterNewsgroup t0 (Newsgroup message) db))
   \<and> RegisterArticle H t2 t3 message (RegisterArticle H t0 now message db) =
       RegisterArticle H t0 now message db"
  using RegisterArticle_present [of db message H t0 now]
        RegisterArticle_twice [of H t2 t3 message t0 now db]
  by blast

theorem C9_register_article_idempotent_witness:
  "HasArticle (HMSet (ARTICLE_PREFIX @ ''<abc@x>'') [(''msgid'', ''<abc@x>'')] (RegisterNewsgroup 1 ''overchan.test'' Map.empty))
              (MessageID article_abc) \<and>
   RegisterArticle id 2 3 article_abc
     (HMSet (ARTICLE_PREFIX @ ''<abc@x>'') [(''msgid'', ''<abc@x>'')] (RegisterNewsgroup 1 ''overchan.test'' Map.empty)) =
     HMSet (ARTICLE_PREFIX @ ''<abc@x>'') [(''msgid'', ''<abc@x>'')] (RegisterNewsgroup 1 ''overchan.test'' Map.empty)"
  using C9_register_article_idempotent
          [of "HMSet (ARTICLE_PREFIX @ ''<abc@x>'') [(''msgid'', ''<abc@x>'')] (RegisterNewsgroup 1 ''overchan.test'' Map.empty)"
              article_abc id 2 3 4 5]
  by (simp add: article_abc_def HasArticle_def Exists_def HMSet_def HasNewsgroup_iff
                RegisterNewsgroup_def ZAddNX_def key_defs)

subsection \<open>Deleting an article and its attachments\<close>

lemma ZRem_other [simp]: "k' \<noteq> k \<Longrightarrow> ZRem k m db k' = db k'"
  by (simp add: ZRem_def split: option.splits rvalue.splits)
lemma SRem_other [simp]: "k' \<noteq> k \<Longrightarrow> SRem k m db k' = db k'"
  by (simp add: SRem_def split: option.splits rvalue.splits)
lemma Del_other [simp]: "k' \<notin> set ks \<Longrightarrow> Del ks db k' = db k'"
  by (simp add: Del_def)
lemma Del_same [simp]: "k' \<in> set ks \<Longrightarrow> Del ks db k' = None"
  by (simp add: Del_def)

lemma remove_headers_other:
  assumes "\<And>x. K \<noteq> HEADER_KR_PREFIX @ x"
  shows "remove_headers msgid hs db K = db K"
  unfolding remove_headers_def
  using assms by (induction hs arbitrary: db) simp_all

lemma delete_records_frame:
  assumes "\<And>y. K \<noteq> HEADER_KR_PREFIX @ y" "\<And>y. K \<noteq> THREAD_POST_WKR @ y"
    "\<And>y. K \<noteq> HASH_MESSAGEID_PREFIX @ y" "\<And>y. K \<noteq> ARTICLE_PREFIX @ y"
    "\<And>y. K \<noteq> ARTICLE_POST_PREFIX @ y" "\<And>y. K \<noteq> ARTICLE_KEY_PREFIX @ y"
    "\<And>y. K \<noteq> GROUP_ARTICLE_POSTTIME_WKR_PREFIX @ y" "K \<noteq> ARTICLE_WKR"
    "\<And>y. K \<noteq> MESSAGEID_HEADER_KR_PREFIX @ y"
  shows "delete_records msgid p db K = db K"
  unfolding delete_records_def Let_def
  by (simp add: assms remove_headers_other if_app)

lemma delete_records_attachment_keys:
  "delete_records msgid p db (ARTICLE_ATTACHMENT_KR_PREFIX @ x) = db (ARTICLE_ATTACHMENT_KR_PREFIX @ x)"
  "delete_records msgid p db (ATTACHMENT_ARTICLE_KR_PREFIX @ x) = db (ATTACHMENT_ARTICLE_KR_PREFIX @ x)"
  "delete_records msgid p db (ATTACHMENT_PREFIX @ x) = db (ATTACHMENT_PREFIX @ x)"
  by (rule delete_records_frame; simp add: key_defs)+

lemma SRem_same:
  "SRem k m db k =
     (case db k of
        Some (RSet s) \<Rightarrow> (if s |-| {|m|} = {||} then None else Some (RSet (s |-| {|m|})))
      | v \<Rightarrow> v)"
  by (simp add: SRem_def split: option.splits rvalue.splits)

lemma attachment_keys_distinct:
  "ATTACHMENT_ARTICLE_KR_PREFIX @ x \<noteq> ATTACHMENT_PREFIX @ y"
  "ATTACHMENT_PREFIX @ y \<noteq> ATTACHMENT_ARTICLE_KR_PREFIX @ x"
  "ATTACHMENT_ARTICLE_KR_PREFIX \<noteq> ATTACHMENT_PREFIX"
  "ATTACHMENT_PREFIX \<noteq> ATTACHMENT_ARTICLE_KR_PREFIX"
  by (simp_all add: key_defs)

lemma remove_attachment_done:
  assumes "attachment_gone d a"
  shows "attachment_gone (remove_attachment msgid a' d) a"
proof (cases "a' = a")
  case True
  then show ?thesis
    using assms
    by (simp add: attachment_gone_def remove_attachment_def Let_def Exists_def SRem_same
                  attachment_keys_distinct)
next
  case False
  then show ?thesis
    using assms
    by (simp add: attachment_gone_def remove_attachment_def Let_def Exists_def
                  attachment_keys_distinct)
qed

lemma remove_attachment_last:
  assumes "only_referrer d a msgid"
  shows "attachment_gone (remove_attachment msgid a d) a"
  using assms
  by (simp add: attachment_gone_def only_referrer_def remove_attachment_def Let_def Exists_def
                SRem_same attachment_keys_distinct)

lemma remove_attachment_shared:
  assumes "d (ATTACHMENT_ARTICLE_KR_PREFIX @ a) = Some (RSet s)" and "s |-| {|msgid|} \<noteq> {||}"
  shows "remove_attachment msgid a d (ATTACHMENT_ARTICLE_KR_PREFIX @ a) = Some (RSet (s |-| {|msgid|}))
       \<and> remove_attachment msgid a d (ATTACHMENT_PREFIX @ a) = d (ATTACHMENT_PREFIX @ a)"
  using assms
  by (simp add: remove_attachment_def Let_def Exists_def SRem_same attachment_keys_distinct)

lemma remove_attachment_other:
  assumes "a' \<noteq> a"
  shows "remove_attachment msgid a' d (ATTACHMENT_ARTICLE_KR_PREFIX @ a) = d (ATTACHMENT_ARTICLE_KR_PREFIX @ a)"
    and "remove_attachment msgid a' d (ATTACHMENT_PREFIX @ a) = d (ATTACHMENT_PREFIX @ a)"
  using assms
  by (simp_all add: remove_attachment_def Let_def attachment_keys_distinct)

lemma remove_attachment_other_referrer:
  assumes "a' \<noteq> a" and "only_referrer d a msgid"
  shows "only_referrer (remove_attachment msgid a' d) a msgid"
  using assms by (simp add: only_referrer_def remove_attachment_other)

lemma remove_attachments_done:
  "attachment_gone d a \<Longrightarrow> attachment_gone (remove_attachments msgid as d) a"
proof (induction as arbitrary: d)
  case Nil
  then show ?case by (simp add: remove_attachments_def)
next
  case (Cons a' as)
  have "attachment_gone (remove_attachment msgid a' d) a"
    using Cons.prems by (rule remove_attachment_done)
  then have "attachment_gone (remove_attachments msgid as (remove_attachment msgid a' d)) a"
    by (rule Cons.IH)
  then show ?case by (simp add: remove_attachments_def)
qed

lemma remove_attachments_last:
  "a \<in> set as \<Longrightarrow> only_referrer d a msgid \<Longrightarrow> attachment_gone (remove_attachments msgid as d) a"
proof (induction as arbitrary: d)
  case Nil
  then show ?case by simp
next
  case (Cons a' as)
  have u: "remove_attachments msgid (a' # as) d = remove_attachments msgid as (remove_attachment msgid a' d)"
    by (simp add: remove_attachments_def)
  show ?case
  proof (cases "a' = a")
    case True
    have "attachment_gone (remove_attachment msgid a' d) a"
      unfolding True using Cons.prems(2) by (rule remove_attachment_last)
    then show ?thesis
      unfolding u by (rule remove_attachments_done)
  next
    case False
    then have m: "a \<in> set as" using Cons.prems(1) by simp
    have "only_referrer (remove_attachment msgid a' d) a msgid"
      using False Cons.prems(2) by (rule remove_attachment_other_referrer)
    with m show ?thesis
      unfolding u by (rule Cons.IH)
  qed
qed

lemma DeleteArticle_last_reference:
  assumes "GetPostModel db msgid \<noteq> None"
    and "db (ARTICLE_ATTACHMENT_KR_PREFIX @ msgid) = Some (RSet atts)" and "a |\<in>| atts"
    and "only_referrer db a msgid"
  shows "attachment_gone (DeleteArticle msgid db) a"
proof -
  obtain p where p: "GetPostModel db msgid = Some p"
    using assms(1) by blast
  define d7 where "d7 = delete_records msgid p db"
  have f: "d7 (ARTICLE_ATTACHMENT_KR_PREFIX @ msgid) = Some (RSet atts)"
    "only_referrer d7 a msgid"
    using assms(2,4)
    by (simp_all add: d7_def only_referrer_def delete_records_attachment_keys)
  have s: "SMembers d7 (ARTICLE_ATTACHMENT_KR_PREFIX @ msgid) = Some (sorted_list_of_fset atts)"
    using f(1) by (simp add: SMembers_def)
  have "a \<in> set (sorted_list_of_fset atts)"
    using assms(3) by simp
  then have g: "attachment_gone (remove_attachments msgid (sorted_list_of_fset atts) d7) a"
    using f(2) by (rule remove_attachments_last)
  have "DeleteArticle msgid db =
          Del [ARTICLE_ATTACHMENT_KR_PREFIX @ msgid]
            (remove_attachments msgid (sorted_list_of_fset atts) d7)"
    by (simp add: DeleteArticle_def p Let_def d7_def [symmetric] s)
  then show ?thesis
    using g by (simp add: attachment_gone_def Del_def)
qed


lemma SAdd_same:
  "SAdd k m db k =
     (case db k of
        None \<Rightarrow> Some (RSet {|m|})
      | Some (RSet s) \<Rightarrow> Some (RSet (finsert m s))
      | Some v \<Rightarrow> Some v)"
  by (simp add: SAdd_def split: option.splits rvalue.splits)

lemma HSetNX_same:
  "HSetNX k f v db k =
     (case db k of
        None \<Rightarrow> Some (RHash (fmupd f v fmempty))
      | Some (RHash h) \<Rightarrow> Some (RHash (if f |\<in>| fmdom h then h else fmupd f v h))
      | Some w \<Rightarrow> Some w)"
  by (simp add: HSetNX_def split: option.splits rvalue.splits)

lemma EncodeToString_abcd: "EncodeToString [171, 205] = ''abcd''"
  by (simp add: EncodeToString_def hexdigit_def)

lemma pic_registered:
  "RegisterArticle id t0 now article_pic Map.empty (ARTICLE_ATTACHMENT_KR_PREFIX @ ''<pic@x>'')
     = Some (RSet {|''abcd''|})"
  "RegisterArticle id t0 now article_pic Map.empty (ATTACHMENT_ARTICLE_KR_PREFIX @ ''abcd'')
     = Some (RSet {|''<pic@x>''|})"
  "\<exists>h. RegisterArticle id t0 now article_pic Map.empty (ATTACHMENT_PREFIX @ ''abcd'') = Some (RHash h)
       \<and> fmlookup h ''filepath'' = Some ''abcd.png''"
  "\<exists>h. RegisterArticle id t0 now article_pic Map.empty (ARTICLE_POST_PREFIX @ ''<pic@x>'') = Some (RHash h)"
proof -
  have n: "\<not> HasArticle (RegisterNewsgroup t0 ''overchan.test'' Map.empty) ''<pic@x>''"
    by (simp add: HasArticle_def Exists_def RegisterNewsgroup_def key_defs)
  have hn: "\<not> HasNewsgroup Map.empty ''overchan.test''"
    by (simp add: HasNewsgroup_def ZRank_def)
  have r: "RegisterArticle id t0 now article_pic Map.empty K =
             register_attachments ''<pic@x>'' (Attachments article_pic)
               (register_headers ''<pic@x>'' []
                 (register_thread article_pic
                   (ZAddNX ARTICLE_WKR now ''<pic@x>''
                     (HMSet (ARTICLE_POST_PREFIX @ ''<pic@x>'')
                        [(''newsgroup'', ''overchan.test''), (''message_id'', ''<pic@x>''),
                         (''ref_id'', []), (''name'', ''anon''),
                         (''subject'', ''see pic''), (''path'', ''x''),
                         (''time_posted'', Itoa 1136239445),
                         (''message'', ''see pic''), (''addr'', [])]
                       (ZAddNX (GROUP_ARTICLE_POSTTIME_WKR_PREFIX @ ''overchan.test'') now ''<pic@x>''
                         (ZAddXX GROUP_POSTTIME_WKR now ''overchan.test''
                           (Set_cmd (HASH_MESSAGEID_PREFIX @ ''<pic@x>'') ''<pic@x>''
                             (HMSet (ARTICLE_PREFIX @ ''<pic@x>'')
                                [(''msgid'', ''<pic@x>''), (''message_id_hash'', ''<pic@x>''),
                                 (''message_newsgroup'', ''overchan.test''), (''time_obtained'', Itoa now),
                                 (''message_ref_id'', [])]
                               (RegisterNewsgroup t0 ''overchan.test'' Map.empty))))))))) K" for K
    using n hn unfolding RegisterArticle_def Let_def
    by (simp add: article_pic_def)
  have a: "register_attachments m (Attachments article_pic) d =
             register_attachment m \<lparr>Hash = [171, 205], Filename = ''pic.png'', Filepath = ''abcd.png''\<rparr> d" for m d
    by (simp add: register_attachments_def article_pic_def)
  have t: "register_thread article_pic d K = d K"
    if "\<And>x. K \<noteq> GROUP_THREAD_POSTTIME_WKR_PREFIX @ x" "\<And>x. K \<noteq> GROUP_THREAD_BUMPTIME_WKR_PREFIX @ x"
    "K \<noteq> THREAD_BUMPTIME_WKR" for K d
    using that by (simp add: register_thread_def Let_def article_pic_def)
  note ev = register_attachment_def Let_def EncodeToString_abcd register_headers_def key_defs
    SAdd_same HSetNX_same HMSet_same t RegisterNewsgroup_def
  show "RegisterArticle id t0 now article_pic Map.empty (ARTICLE_ATTACHMENT_KR_PREFIX @ ''<pic@x>'')
     = Some (RSet {|''abcd''|})"
    unfolding r a by (simp add: ev)
  show "RegisterArticle id t0 now article_pic Map.empty (ATTACHMENT_ARTICLE_KR_PREFIX @ ''abcd'')
     = Some (RSet {|''<pic@x>''|})"
    unfolding r a by (simp add: ev)
  show "\<exists>h. RegisterArticle id t0 now article_pic Map.empty (ATTACHMENT_PREFIX @ ''abcd'') = Some (RHash h)
       \<and> fmlookup h ''filepath'' = Some ''abcd.png''"
    unfolding r a by (simp add: ev)
  show "\<exists>h. RegisterArticle id t0 now article_pic Map.empty (ARTICLE_POST_PREFIX @ ''<pic@x>'') = Some (RHash h)"
    unfolding r a by (simp add: ev)
qed

text \<open>
  C3 at a failing input.  The article \<open><pic@x>\<close> is the only article that refers to the
  blob \<open>abcd\<close>, whose file \<open>abcd.png\<close> is on disk.  \<open>DeleteArticle\<close> removes the reverse
  link set and the attachment record of the blob, and the file is still there: the claim
  wants it removed, and line 518 of redis.go says \<^verbatim>\<open>//TODO delete files from disk\<close>.
\<close>

theorem C3_DeleteArticle_leaves_the_file:
  "only_referrer (database pic_daemon) ''abcd'' ''<pic@x>''
   \<and> ''abcd.png'' \<in> attachment_files pic_daemon
   \<and> attachment_gone (database (DeleteArticle_daemon ''<pic@x>'' pic_daemon)) ''abcd''
   \<and> ''abcd.png'' \<in> attachment_files (DeleteArticle_daemon ''<pic@x>'' pic_daemon)"
proof -
  let ?db = "RegisterArticle id 1136239445 1136239445 article_pic Map.empty"
  have g: "GetPostModel ?db ''<pic@x>'' \<noteq> None"
    using pic_registered(4) [of 1136239445 1136239445]
    by (auto simp add: GetPostModel_def HGetAll_def Let_def)
  have o: "only_referrer ?db ''abcd'' ''<pic@x>''"
    by (simp add: only_referrer_def pic_registered(2))
  have "attachment_gone (DeleteArticle ''<pic@x>'' ?db) ''abcd''"
    using g pic_registered(1) [of 1136239445 1136239445] _ o
    by (rule DeleteArticle_last_reference) simp
  then show ?thesis
    using o by (simp add: pic_daemon_def DeleteArticle_daemon_def)
qed

subsection \<open>The file name of an invalid message-id\<close>

text \<open>
  C7: for every string that does not satisfy the message-id syntax (it begins with \<open><\<close>,
  ends with \<open>>\<close>, contains \<open>@\<close>, and is no longer than the limit), \<open>GetFilename\<close> returns the
  empty path and makes no call to the file system.
\<close>

theorem C7_GetFilename_rejects_invalid_message_id:
  "\<not> ValidMessageID limit messageID \<Longrightarrow> GetFilename limit Join self messageID = ('''', [])"
  by (simp add: GetFilename_def)

theorem C7_GetFilename_rejects_invalid_message_id_witness:
  "\<not> ValidMessageID 250 ''../../etc/passwd''
   \<and> GetFilename 250 append articles_store ''../../etc/passwd'' = ('''', [])"
  using C7_GetFilename_rejects_invalid_message_id [of 250 "''../../etc/passwd''" append articles_store]
  by (simp add: ValidMessageID_def)

subsection \<open>Signatures carried in the headers\<close>

text \<open>
  C10: for every article on which any of \<open>Signature\<close>, \<open>Key\<close> or the \<open>Signed\<close> region is empty,
  \<open>Verify\<close> returns true and calls none of the cryptographic primitives.
\<close>

theorem C10_Verify_trivial_when_a_field_is_empty:
  "Signature self = [] \<or> Key self = [] \<or> Signed self = [] \<Longrightarrow> Verify C self = Some (True, [])"
  by (auto simp add: Verify_def)

theorem C10_Verify_trivial_when_a_field_is_empty_witness:
  "(Signature \<lparr>Key = ''00'', Signature = [], Signed = ''body''\<rparr> = []
    \<or> Key \<lparr>Key = ''00'', Signature = [], Signed = ''body''\<rparr> = []
    \<or> Signed \<lparr>Key = ''00'', Signature = [], Signed = ''body''\<rparr> = [])
   \<and> Verify refuse_all \<lparr>Key = ''00'', Signature = [], Signed = ''body''\<rparr> = Some (True, [])"
  using C10_Verify_trivial_when_a_field_is_empty
          [of "\<lparr>Key = ''00'', Signature = [], Signed = ''body''\<rparr>" refuse_all]
  by simp

text \<open>
  C8, as stated, fails, in three ways.
  \<^item> The region \<open>CR LF\<close> holds no lone line feed, so the form of the claim is the region
    itself and two bytes trimmed leave nothing; \<open>Verify\<close> replaces the line feed all the
    same and hashes the one byte \<open>CR\<close>.
  \<^item> On the one-byte region \<open>x\<close> the slice \<^verbatim>\<open>buff[:len(buff)-2]\<close> is out of range and
    \<open>Verify\<close> panics: nothing is hashed or checked.
  \<^item> With a signature that is not hexadecimal \<open>Verify\<close> hashes the region and returns false
    without checking any signature.
\<close>

theorem C8_canonical_form_counterexample:
  "spec_signed_bytes [CR, LF] = []
   \<and> Verify refuse_all \<lparr>Key = ''00'', Signature = ''00'', Signed = [CR, LF]\<rparr>
       = Some (False, [Sha512 [CR], SignOpen [char_of (0::nat), CR] [char_of (0::nat)]])
   \<and> Verify refuse_all \<lparr>Key = ''00'', Signature = ''00'', Signed = ''x''\<rparr> = None
   \<and> Verify refuse_all \<lparr>Key = ''00'', Signature = ''zz'', Signed = ''hi'' @ [LF]\<rparr>
       = Some (False, [Sha512 ''hi''])"
  by (simp add: spec_signed_bytes_def Verify_def signed_bytes_def Replace_LF_def LF_def CR_def
                hexval_def refuse_all_def)

text \<open>
  C8, amended: for every article carrying a header-based signature (non-empty \<open>Key\<close>,
  \<open>Signature\<close> and \<open>Signed\<close> region) whose \<open>Signature\<close> and \<open>Key\<close> are hexadecimal and whose
  region is at least two bytes long after the replacement, \<open>Verify\<close> hashes, with SHA-512,
  the \<open>Signed\<close> region with \<^emph>\<open>every\<close> line feed replaced by carriage return, line feed (also
  one that follows a carriage return already) and the trailing two bytes trimmed, and then
  checks the signature in the \<open>crypto_sign_open\<close> form, where the signature bytes prefix
  the hash as the signed message; what \<open>Verify\<close> returns is the outcome of that check.
\<close>

theorem C8_Verify_header_signature:
  assumes "Signature self \<noteq> []" and "Key self \<noteq> []" and "Signed self \<noteq> []"
    and "2 \<le> length (Replace_LF (Signed self))"
    and "DecodeString (Signature self) = Some sig_bytes"
    and "DecodeString (Key self) = Some pk_bytes"
  shows "Verify C self =
           (let buff = take (length (Replace_LF (Signed self)) - 2) (Replace_LF (Signed self));
                smsg = sig_bytes @ Sum512 C buff
            in Some (CryptoVerify C smsg pk_bytes, [Sha512 buff, SignOpen smsg pk_bytes]))"
  using assms by (simp add: Verify_def signed_bytes_def Let_def)

theorem C8_Verify_header_signature_witness:
  "Signature \<lparr>Key = ''00'', Signature = ''00'', Signed = ''hi'' @ [LF]\<rparr> \<noteq> []
   \<and> Key \<lparr>Key = ''00'', Signature = ''00'', Signed = ''hi'' @ [LF]\<rparr> \<noteq> []
   \<and> Signed \<lparr>Key = ''00'', Signature = ''00'', Signed = ''hi'' @ [LF]\<rparr> \<noteq> []
   \<and> 2 \<le> length (Replace_LF (''hi'' @ [LF]))
   \<and> DecodeString ''00'' = Some [char_of (0::nat)]
   \<and> Verify refuse_all \<lparr>Key = ''00'', Signature = ''00'', Signed = ''hi'' @ [LF]\<rparr>
       = Some (False, [Sha512 ''hi'', SignOpen (char_of (0::nat) # ''hi'') [char_of (0::nat)]])"
proof -
  have d: "DecodeString ''00'' = Some [char_of (0::nat)]"
    by (simp add: hexval_def)
  have l: "2 \<le> length (Replace_LF (''hi'' @ [LF]))"
    by (simp add: Replace_LF_def LF_def)
  show ?thesis
    using d l
      C8_Verify_header_signature
        [of "\<lparr>Key = ''00'', Signature = ''00'', Signed = ''hi'' @ [LF]\<rparr>"
            "[char_of (0::nat)]" "[char_of (0::nat)]" refuse_all]
    by (simp add: Replace_LF_def LF_def CR_def refuse_all_def Let_def)
qed

subsection \<open>Signed envelopes\<close>

text \<open>
  C5, as stated, fails, in two ways.
  \<^item> Line 436 looks for a \<open>boundary\<close> parameter before line 476 looks at the media type.  The
    message \<open>boundary_header\<close> has the top-level Content-Type \<open>message/rfc822; boundary=xyz\<close>,
    a key and a signature that the primitives refuse; \<open>read_message_body\<close> reads it as a
    multipart message, calls no primitive and returns the article with a nil error, and
    \<open>ProcessMessageBody\<close> registers it.
  \<^item> The loop of lines 491-505 hashes the bytes of the \<open>Read\<close> calls that return a nil error
    only.  On \<open>eof_body\<close> the five bytes of the inner body come together with \<^verbatim>\<open>io.EOF\<close>:
    the check is made over the hash of the empty string, not of the inner body, and with a
    signature that is good for the empty string only the error returned is the one of
    \<open>readMIMEHeader\<close>, not \<open>invalid signature\<close>.
\<close>

theorem C5_boundary_envelope_counterexample:
  "ParseMediaType boundary_env (ContentType boundary_env boundary_header)
     = Inr (''message/rfc822'', [''boundary'' \<mapsto> ''xyz''])
   \<and> \<not> CryptoVerifyFucky (primitives boundary_env)
         (Sum512 (primitives boundary_env) (''--xyz--'' @ [CR, LF])) ''bb'' ''aa''
   \<and> read_message_body (Suc 0) boundary_env boundary_body boundary_header True =
       Some ((Some \<lparr>art_headers = boundary_header, art_message = None, art_attachments = []\<rparr>,
              None), [])
   \<and> ProcessMessageBody (Suc 0) boundary_env 1 2 boundary_header boundary_body Map.empty =
       Some (None, RegisterArticle id 1 2 forged_article Map.empty)
   \<and> \<not> HasArticle Map.empty ''<forged@x>''
   \<and> HasArticle (RegisterArticle id 1 2 forged_article Map.empty) ''<forged@x>''
   \<and> \<not> CryptoVerifyFucky (primitives eof_env) (Sum512 (primitives eof_env) ''inner'') ''bb'' ''aa''
   \<and> read_message_body (Suc 0) eof_env eof_body envelope_header True =
       Some ((None, Some (Lib ''no header'')), [Sha512 [], VerifyDetached [] ''bb'' ''aa''])"
proof -
  have p: "ParseMediaType boundary_env (ContentType boundary_env boundary_header)
             = Inr (''message/rfc822'', [''boundary'' \<mapsto> ''xyz''])"
    by (simp add: boundary_env_def envelope_env_def boundary_header_def MIMEHeader_Get_def)
  have v: "\<not> CryptoVerifyFucky (primitives boundary_env)
               (Sum512 (primitives boundary_env) (''--xyz--'' @ [CR, LF])) ''bb'' ''aa''"
    by (simp add: boundary_env_def envelope_env_def refuse_all_def)
  have n: "NextParts boundary_env boundary_body ''xyz'' = ([], None)"
    by (simp add: boundary_env_def)
  have r: "read_message_body (Suc 0) boundary_env boundary_body boundary_header True =
             Some ((Some \<lparr>art_headers = boundary_header, art_message = None, art_attachments = []\<rparr>,
                    None), [])"
    by (simp add: p n)
  have a: "as_NNTPMessage boundary_env
             \<lparr>art_headers = boundary_header, art_message = None, art_attachments = []\<rparr>
           = forged_article"
    by (simp add: boundary_env_def boundary_header_def MIMEHeader_Get_def forged_article_def)
  have h: "HashMessageID boundary_env = id"
    by (simp add: boundary_env_def envelope_env_def)
  have q: "ProcessMessageBody (Suc 0) boundary_env 1 2 boundary_header boundary_body Map.empty =
             Some (None, RegisterArticle id 1 2 forged_article Map.empty)"
    unfolding ProcessMessageBody_def r by (simp add: RegisterPost_def a h)
  have e: "\<not> HasArticle Map.empty ''<forged@x>''"
    by (simp add: HasArticle_def Exists_def)
  have m: "MessageID forged_article = ''<forged@x>''"
    by (simp add: forged_article_def)
  have "\<not> HasArticle (if \<not> HasNewsgroup Map.empty (Newsgroup forged_article)
                         then RegisterNewsgroup 1 (Newsgroup forged_article) Map.empty
                         else Map.empty) (MessageID forged_article)"
    by (simp add: HasArticle_def Exists_def RegisterNewsgroup_def key_defs)
  then have "RegisterArticle id 1 2 forged_article Map.empty (ARTICLE_PREFIX @ MessageID forged_article)
               \<noteq> None"
    by (rule pipeline_at_article) (rule refl)
  then have g: "HasArticle (RegisterArticle id 1 2 forged_article Map.empty) ''<forged@x>''"
    by (simp add: HasArticle_def Exists_def m)
  have w: "\<not> CryptoVerifyFucky (primitives eof_env) (Sum512 (primitives eof_env) ''inner'') ''bb'' ''aa''"
    by (simp add: eof_env_def accept_empty_def)
  have t: "read_message_body (Suc 0) eof_env eof_body envelope_header True =
             Some ((None, Some (Lib ''no header'')), [Sha512 [], VerifyDetached [] ''bb'' ''aa''])"
    by (simp add: eof_env_def envelope_env_def envelope_header_def eof_body_def accept_empty_def
          MIMEHeader_Get_def)
  show ?thesis
    using p v r q e g w t by blast
qed

text \<open>
  C5, amended: a signed envelope is a message whose top-level Content-Type parses to the
  media type \<open>message/rfc822\<close> with \<^emph>\<open>no boundary parameter\<close>, that carries a public key and
  a signature in its headers, and whose body is read to \<^verbatim>\<open>io.EOF\<close> with no other error;
  \<open>inner\<close> is what the \<open>Read\<close> calls returned with a nil error before \<^verbatim>\<open>io.EOF\<close> (bytes
  that come together with \<^verbatim>\<open>io.EOF\<close> are not part of it).  When the detached check of the
  signature over the SHA-512 of \<open>inner\<close> fails, \<open>read_message_body\<close> returns no article and
  the error \<open>invalid signature\<close>, at any nesting bound; and \<open>ProcessMessageBody\<close> returns
  that error and leaves the index as it was.
\<close>

theorem C5_invalid_signature_is_not_registered:
  assumes "ParseMediaType E (ContentType E hdr) = Inr (''message/rfc822'', params)"
    and "params ''boundary'' = None"
    and "Pubkey E hdr \<noteq> []"
    and "Get E hdr ''X-Signature-Ed25519-Sha512'' [] \<noteq> []"
    and "read_signed_body body [] = Inr inner"
    and "\<not> CryptoVerifyFucky (primitives E) (Sum512 (primitives E) inner)
             (unhex E (Get E hdr ''X-Signature-Ed25519-Sha512'' [])) (unhex E (Pubkey E hdr))"
  shows "read_message_body (Suc depth) E body hdr store =
           Some ((None, Some (New ''invalid signature'')),
                 [Sha512 inner,
                  VerifyDetached (Sum512 (primitives E) inner)
                    (unhex E (Get E hdr ''X-Signature-Ed25519-Sha512'' [])) (unhex E (Pubkey E hdr))])
       \<and> ProcessMessageBody (Suc depth) E t0 now hdr body db =
           Some (Some (New ''invalid signature''), db)"
  using assms by (simp add: ProcessMessageBody_def Let_def)

theorem C5_invalid_signature_is_not_registered_witness:
  "ParseMediaType envelope_env (ContentType envelope_env envelope_header)
     = Inr (''message/rfc822'', Map.empty)
   \<and> Pubkey envelope_env envelope_header \<noteq> []
   \<and> Get envelope_env envelope_header ''X-Signature-Ed25519-Sha512'' [] \<noteq> []
   \<and> read_signed_body [(''inner'', None)] [] = Inr ''inner''
   \<and> read_message_body (Suc 0) envelope_env [(''inner'', None)] envelope_header True =
       Some ((None, Some (New ''invalid signature'')),
             [Sha512 ''inner'', VerifyDetached ''inner'' ''bb'' ''aa''])
   \<and> ProcessMessageBody (Suc 0) envelope_env 1 2 envelope_header [(''inner'', None)] Map.empty =
       Some (Some (New ''invalid signature''), Map.empty)"
proof -
  have p: "ParseMediaType envelope_env (ContentType envelope_env envelope_header)
             = Inr (''message/rfc822'', Map.empty)"
    by (simp add: envelope_env_def envelope_header_def MIMEHeader_Get_def)
  have k: "Pubkey envelope_env envelope_header \<noteq> []"
    by (simp add: envelope_env_def envelope_header_def MIMEHeader_Get_def)
  have s: "Get envelope_env envelope_header ''X-Signature-Ed25519-Sha512'' [] \<noteq> []"
    by (simp add: envelope_env_def envelope_header_def)
  have r: "read_signed_body [(''inner'', None)] [] = Inr ''inner''"
    by simp
  have v: "\<not> CryptoVerifyFucky (primitives envelope_env) (Sum512 (primitives envelope_env) ''inner'')
               (unhex envelope_env (Get envelope_env envelope_header ''X-Signature-Ed25519-Sha512'' []))
               (unhex envelope_env (Pubkey envelope_env envelope_header))"
    by (simp add: envelope_env_def refuse_all_def)
  have e: "Sum512 (primitives envelope_env) ''inner'' = ''inner''"
    "unhex envelope_env (Get envelope_env envelope_header ''X-Signature-Ed25519-Sha512'' []) = ''bb''"
    "unhex envelope_env (Pubkey envelope_env envelope_header) = ''aa''"
    by (simp_all add: envelope_env_def envelope_header_def MIMEHeader_Get_def refuse_all_def)
  show ?thesis
    using p k s r
      C5_invalid_signature_is_not_registered [OF p _ k s r v, of 0 True 1 2 Map.empty]
    by (simp add: e)
qed

subsection \<open>Banned addresses and ranges\<close>

text \<open>
  What the range lookup of \<open>CheckIPBanned\<close> finds: \<^verbatim>\<open>ZRangeByLex\<close> with \<^verbatim>\<open>Count: 1\<close> returns
  the smallest endpoint at or above the query's max endpoint, and the stored start of that
  one range is compared with the query's min endpoint.  On a store whose ranges do not
  overlap (\<open>ban_ranges_ok\<close>) this is the same as asking for some endpoint at or above max
  whose stored start is at or below min.
\<close>

lemma take1_filter_Nil: "take (Suc 0) (filter P xs) = [] \<longleftrightarrow> (\<forall>x\<in>set xs. \<not> P x)"
  by (simp add: take_eq_Nil filter_empty_conv)

lemma take1_filter_first:
  "sorted xs \<Longrightarrow> take (Suc 0) (filter P xs) = x # rest \<Longrightarrow>
     rest = [] \<and> x \<in> set xs \<and> P x \<and> (\<forall>y\<in>set xs. P y \<longrightarrow> x \<le> y)"
proof (induction xs)
  case Nil
  then show ?case by simp
next
  case (Cons a xs)
  show ?case
  proof (cases "P a")
    case True
    with Cons.prems show ?thesis by auto
  next
    case False
    with Cons.prems Cons.IH show ?thesis by auto
  qed
qed

lemma first_endpoint_none:
  assumes "ZRangeByLex db IP_RANGE_BAN_KR (''['' @ start) ''+'' 1 = Some []"
  shows "\<forall>e. e |\<in>| ip_range_ban db \<longrightarrow> \<not> start \<le> e"
proof (cases "db IP_RANGE_BAN_KR")
  case None
  then show ?thesis by (simp add: ip_range_ban_def ordering_at_def)
next
  case (Some v)
  show ?thesis
  proof (cases v)
    case (RZSet z)
    have "filter (\<lambda>m. start \<le> m) (sorted_list_of_fset (fmdom z)) = []"
      using assms Some RZSet
      by (simp add: ZRangeByLex_def parse_lex_bound_def above_min_def below_max_def)
    then have "\<forall>x\<in>set (sorted_list_of_fset (fmdom z)). \<not> start \<le> x"
      by (simp add: filter_empty_conv)
    then show ?thesis
      using Some RZSet by (simp add: ip_range_ban_def ordering_at_def)
  qed (use Some in \<open>simp_all add: ip_range_ban_def ordering_at_def\<close>)
qed

lemma first_endpoint_some:
  assumes "ZRangeByLex db IP_RANGE_BAN_KR (''['' @ start) ''+'' 1 = Some (e # rest)"
  shows "e |\<in>| ip_range_ban db \<and> start \<le> e \<and> (\<forall>e'. e' |\<in>| ip_range_ban db \<longrightarrow> start \<le> e' \<longrightarrow> e \<le> e')"
proof -
  obtain z where z: "db IP_RANGE_BAN_KR = Some (RZSet z)"
    and t: "take (Suc 0) (filter (\<lambda>m. start \<le> m) (sorted_list_of_fset (fmdom z))) = e # rest"
    using assms
    by (auto simp add: ZRangeByLex_def parse_lex_bound_def above_min_def below_max_def
          split: option.splits rvalue.splits)
  have "sorted (sorted_list_of_fset (fmdom z))"
    by (simp add: sorted_list_of_fset.rep_eq)
  from take1_filter_first [OF this t] show ?thesis
    by (auto simp add: ip_range_ban_def ordering_at_def z)
qed

lemma first_endpoint_error:
  assumes "ZRangeByLex db IP_RANGE_BAN_KR (''['' @ start) ''+'' 1 = None"
  shows "ip_range_ban db = {||}"
  using assms
  by (auto simp add: ZRangeByLex_def parse_lex_bound_def ip_range_ban_def ordering_at_def
        split: option.splits rvalue.splits)





lemma smallest_endpoint_unique:
  "smallest_endpoint db mx e \<Longrightarrow> smallest_endpoint db mx e' \<Longrightarrow> e = e'"
proof -
  assume a: "smallest_endpoint db mx e" and b: "smallest_endpoint db mx e'"
  have "e \<le> e'" using a b unfolding smallest_endpoint_def by blast
  moreover have "e' \<le> e" using a b unfolding smallest_endpoint_def by blast
  ultimately show "e = e'" by (rule order_antisym)
qed

lemma check_range_smallest:
  "fst (check_range db mx mn) \<longleftrightarrow>
     (\<exists>e s. smallest_endpoint db mx e \<and> stored_start db e = Some s \<and> s \<le> mn)"
proof (cases "ZRangeByLex db IP_RANGE_BAN_KR (''['' @ mx) ''+'' 1")
  case None
  have "\<not> fst (check_range db mx mn)"
    using None by (simp add: check_range_def)
  moreover have "\<not> smallest_endpoint db mx e" for e
    using first_endpoint_error [OF None] by (simp add: smallest_endpoint_def)
  ultimately show ?thesis by blast
next
  case (Some rs)
  show ?thesis
  proof (cases rs)
    case Nil
    have "\<not> fst (check_range db mx mn)"
      using Some Nil by (simp add: check_range_def)
    moreover have "\<not> smallest_endpoint db mx e" for e
      using first_endpoint_none [of db mx] Some Nil unfolding smallest_endpoint_def by blast
    ultimately show ?thesis by blast
  next
    case (Cons e1 rest)
    have z: "ZRangeByLex db IP_RANGE_BAN_KR (''['' @ mx) ''+'' 1 = Some (e1 # rest)"
      using Some Cons by simp
    have sm: "smallest_endpoint db mx e1"
      using first_endpoint_some [OF z] unfolding smallest_endpoint_def by blast
    show ?thesis
    proof (cases "stored_start db e1")
      case None
      have "\<not> fst (check_range db mx mn)"
        using z None by (simp add: check_range_def stored_start_def)
      moreover have "\<not> (\<exists>e s. smallest_endpoint db mx e \<and> stored_start db e = Some s \<and> s \<le> mn)"
      proof
        assume "\<exists>e s. smallest_endpoint db mx e \<and> stored_start db e = Some s \<and> s \<le> mn"
        then obtain e s where e: "smallest_endpoint db mx e" "stored_start db e = Some s" by blast
        have "e = e1" using e(1) sm by (rule smallest_endpoint_unique)
        then show False using e(2) None by simp
      qed
      ultimately show ?thesis by blast
    next
      case (Some s1)
      have c: "fst (check_range db mx mn) \<longleftrightarrow> s1 \<le> mn"
        using z Some by (simp add: check_range_def stored_start_def)
      show ?thesis
      proof
        assume "fst (check_range db mx mn)"
        then have "s1 \<le> mn" using c by simp
        then show "\<exists>e s. smallest_endpoint db mx e \<and> stored_start db e = Some s \<and> s \<le> mn"
          using sm Some by blast
      next
        assume "\<exists>e s. smallest_endpoint db mx e \<and> stored_start db e = Some s \<and> s \<le> mn"
        then obtain e s where e: "smallest_endpoint db mx e" "stored_start db e = Some s" "s \<le> mn"
          by blast
        have "e = e1" using e(1) sm by (rule smallest_endpoint_unique)
        then have "s = s1" using e(2) Some by simp
        then show "fst (check_range db mx mn)" using c e(3) by simp
      qed
    qed
  qed
qed

lemma CheckIPBanned_smallest:
  "fst (CheckIPBanned N db addr) \<longleftrightarrow>
     Exists db (IP_BAN_PREFIX @ addr)
     \<or> (\<exists>mn mx e s. query_endpoints N addr = Some (mn, mx) \<and> smallest_endpoint db mx e
            \<and> stored_start db e = Some s \<and> s \<le> mn)"
proof (cases "Exists db (IP_BAN_PREFIX @ addr)")
  case True
  then show ?thesis by (simp add: CheckIPBanned_def)
next
  case False
  show ?thesis
  proof (cases "query_endpoints N addr")
    case None
    then show ?thesis
      using False
      by (auto simp add: CheckIPBanned_def query_endpoints_def split: option.splits prod.splits)
  next
    case (Some q)
    obtain mn mx where q: "q = (mn, mx)" by (cases q)
    have "CheckIPBanned N db addr = check_range db mx mn"
      using Some q False
      by (auto simp add: CheckIPBanned_def query_endpoints_def split: option.splits prod.splits)
    then show ?thesis
      using check_range_smallest [of db mx mn] Some q False by simp
  qed
qed

lemma ipv4_query:
  "query_endpoints ipv4_lib ''10.0.0.7'' = Some (''010.000.000.007'', ''010.000.000.007'')"
  by (simp add: query_endpoints_def ipv4_lib_def digit_def)

lemma nested_ranges_facts:
  "ip_range_ban nested_ranges_db = {|''010.000.001.255'', ''010.000.255.255''|}"
  "stored_start nested_ranges_db ''010.000.001.255'' = Some ''010.000.001.000''"
  "stored_start nested_ranges_db ''010.000.255.255'' = Some ''010.000.000.000''"
  "\<not> Exists nested_ranges_db (IP_BAN_PREFIX @ ''10.0.0.7'')"
  by (simp_all add: nested_ranges_db_def put_range_def ip_range_ban_def ordering_at_def
        stored_start_def HGet_def HMSet_def ZAdd_def Exists_def key_defs)

lemma ipv4_subnet_query:
  "query_endpoints ipv4_lib ''10.0.0.0/16'' = Some (''010.000.000.000'', ''010.000.255.255'')"
  by (simp add: query_endpoints_def ipv4_lib_def digit_def)



lemma nested_smallest:
  "smallest_endpoint nested_ranges_db ''010.000.000.007'' ''010.000.001.255''"
  by (simp add: smallest_endpoint_def nested_ranges_facts)


text \<open>
  The hypothesis \<open>ban_ranges_ok\<close> of \<open>CheckIPBanned_iff\<close> is needed: on a store that holds a
  range nested in another one, written key by key, the lookup sees the inner range only.
  \<open>BanAddr\<close> builds no such store, as shown next.
\<close>

lemma CheckIPBanned_on_nested_ranges:
  "\<not> fst (CheckIPBanned ipv4_lib nested_ranges_db ''10.0.0.7'')
   \<and> query_endpoints ipv4_lib ''10.0.0.7'' = Some (''010.000.000.007'', ''010.000.000.007'')
   \<and> ''010.000.255.255'' |\<in>| ip_range_ban nested_ranges_db
   \<and> ''010.000.000.007'' \<le> ''010.000.255.255''
   \<and> stored_start nested_ranges_db ''010.000.255.255'' = Some ''010.000.000.000''
   \<and> ''010.000.000.000'' \<le> ''010.000.000.007''"
proof -
  have "\<not> (\<exists>e s. smallest_endpoint nested_ranges_db ''010.000.000.007'' e
              \<and> stored_start nested_ranges_db e = Some s \<and> s \<le> ''010.000.000.007'')"
  proof
    assume "\<exists>e s. smallest_endpoint nested_ranges_db ''010.000.000.007'' e
              \<and> stored_start nested_ranges_db e = Some s \<and> s \<le> ''010.000.000.007''"
    then obtain e s where e: "smallest_endpoint nested_ranges_db ''010.000.000.007'' e"
      "stored_start nested_ranges_db e = Some s" "s \<le> ''010.000.000.007''"
      by blast
    have "e = ''010.000.001.255''"
      using e(1) nested_smallest by (rule smallest_endpoint_unique)
    then have "s = ''010.000.001.000''"
      using e(2) by (simp add: nested_ranges_facts)
    then show False using e(3) by simp
  qed
  then have "\<not> fst (CheckIPBanned ipv4_lib nested_ranges_db ''10.0.0.7'')"
    unfolding CheckIPBanned_smallest [of ipv4_lib nested_ranges_db "''10.0.0.7''"] ipv4_query
    using nested_ranges_facts(4) by simp
  then show ?thesis
    by (simp add: ipv4_query nested_ranges_facts)
qed













lemma ZAdd_other [simp]: "k' \<noteq> k \<Longrightarrow> ZAdd k sc m db k' = db k'"
  by (simp add: ZAdd_def split: option.splits rvalue.splits)











text \<open>\<open>RegisterArticle\<close> is one of the operations that leave the keys of the bans alone.\<close>

lemma RegisterNewsgroup_other:
  "K \<noteq> GROUP_POSTTIME_WKR \<Longrightarrow> RegisterNewsgroup t0 grp db K = db K"
  by (simp add: RegisterNewsgroup_def)

lemma RegisterArticle_ban_keys:
  assumes "K = IP_RANGE_BAN_KR \<or> K = IP_RANGE_BAN_PREFIX @ x"
  shows "RegisterArticle H t0 now message db K = db K"
proof -
  have k: "K \<noteq> GROUP_POSTTIME_WKR" "\<And>y. K \<noteq> ARTICLE_PREFIX @ y" "\<And>y. K \<noteq> HASH_MESSAGEID_PREFIX @ y"
    "\<And>y. K \<noteq> GROUP_ARTICLE_POSTTIME_WKR_PREFIX @ y" "\<And>y. K \<noteq> ARTICLE_POST_PREFIX @ y"
    "K \<noteq> ARTICLE_WKR"
    using assms by (auto simp add: key_defs)
  have t: "\<And>y. K \<noteq> GROUP_THREAD_POSTTIME_WKR_PREFIX @ y" "\<And>y. K \<noteq> GROUP_THREAD_BUMPTIME_WKR_PREFIX @ y"
    "K \<noteq> THREAD_BUMPTIME_WKR" "\<And>y. K \<noteq> THREAD_POST_WKR @ y"
    using assms by (auto simp add: key_defs)
  have h: "\<And>y. K \<noteq> HEADER_KR_PREFIX @ y" "\<And>y. K \<noteq> MESSAGEID_HEADER_KR_PREFIX @ y"
    using assms by (auto simp add: key_defs)
  have a: "\<And>y. K \<noteq> ATTACHMENT_ARTICLE_KR_PREFIX @ y" "\<And>y. K \<noteq> ARTICLE_ATTACHMENT_KR_PREFIX @ y"
    "\<And>y. K \<noteq> ATTACHMENT_PREFIX @ y"
    using assms by (auto simp add: key_defs)
  show ?thesis
    unfolding RegisterArticle_def Let_def
    by (simp add: register_attachments_other [OF a] register_headers_other [OF h]
          register_thread_other [OF t] RegisterNewsgroup_other k if_app)
qed

lemma RegisterArticle_other:
  "RegisterArticle H t0 now message db IP_RANGE_BAN_KR = db IP_RANGE_BAN_KR"
  "RegisterArticle H t0 now message db (IP_RANGE_BAN_PREFIX @ x) = db (IP_RANGE_BAN_PREFIX @ x)"
  by (simp_all add: RegisterArticle_ban_keys [where x = x])

lemma RegisterArticle_reachable:
  assumes "ban_reachable N db"
  shows "ban_reachable N (RegisterArticle H t0 now message db)"
  by (rule after_other [OF assms]) (simp_all add: RegisterArticle_other)



end
